theory Spec2Isabelle
  imports Main "HOL-Library.AList"
begin

section \<open>Errors, adapter and shared state\<close>

text \<open>
  Errors are values. \<open>Error m\<close> is a plain \<^verbatim>\<open>new Error(m)\<close>, \<open>TimeoutError m\<close> an
  instance of the \<^verbatim>\<open>TimeoutError\<close> class of sequelize-pool, and \<open>TimeoutErrorClass cls m cause\<close>
  the object built by \<^verbatim>\<open>new this.timeoutErrorClass(m, { cause })\<close> for the caller-supplied
  class \<open>cls\<close>.
\<close>

datatype error =
    Error string
  | TimeoutError string
  | TimeoutErrorClass string string error

text \<open>
  A \<^verbatim>\<open>ConnectionOptions\<close> object: backend parameters the pool never looks at, and the
  optional \<^verbatim>\<open>shardId\<close> property of \<^verbatim>\<open>ShardedObject\<close>.
\<close>

record connection_options =
  params :: string
  shardId :: "string option"

text \<open>
  The caller-supplied adapter. Connections are objects, known here by their identity (a
  number). \<open>connect ad n opts\<close> is the outcome of the call of \<^verbatim>\<open>connect(opts)\<close> that comes
  after \<open>n\<close> earlier calls: \<open>None\<close> when it resolves with a new connection object, \<open>Some e\<close>
  when it rejects with \<open>e\<close>. \<open>disconnect ad c\<close> is the outcome of \<^verbatim>\<open>disconnect(c)\<close>.
\<close>

record adapter =
  connect :: "nat \<Rightarrow> connection_options \<Rightarrow> error option"
  disconnect :: "nat \<Rightarrow> error option"
  validate :: "nat \<Rightarrow> bool"

text \<open>
  The state outside the pool objects:
  \<^item> \<open>next_conn\<close>: the number of connection objects allocated so far (the next identity);
  \<^item> \<open>connect_log\<close>: the options each \<^verbatim>\<open>connect\<close> call received, in call order;
  \<^item> \<open>disconnect_log\<close>: the connections \<^verbatim>\<open>disconnect\<close> was called on, in call order;
  \<^item> \<open>owningPools\<close>: the module-level \<^verbatim>\<open>WeakMap\<close> of replication-pool.ts;
  \<^item> \<open>shardOwningPools\<close>: the module-level \<^verbatim>\<open>WeakMap\<close> of sharded-replication-pool.ts;
  \<^item> \<open>options_heap\<close>: the caller's \<^verbatim>\<open>ConnectionOptions\<close> objects by address (the sharded
    pool holds references to them and writes to them);
  \<^item> \<open>conn_shardId\<close>: the \<^verbatim>\<open>shardId\<close> property of each connection object;
  \<^item> \<open>conn_options\<close>: for each connection object, the options the \<^verbatim>\<open>connect\<close> call that
    made it was given (the backend the connection is open to).
\<close>

record world =
  next_conn :: nat
  connect_log :: "connection_options list"
  disconnect_log :: "nat list"
  owningPools :: "nat \<rightharpoonup> string"
  shardOwningPools :: "nat \<rightharpoonup> string"
  options_heap :: "nat \<Rightarrow> connection_options"
  conn_shardId :: "nat \<rightharpoonup> string"
  conn_options :: "nat \<rightharpoonup> connection_options"

section \<open>The create callbacks\<close>

text \<open>
  The \<^verbatim>\<open>create\<close> closures handed to \<^verbatim>\<open>new Pool\<close>, as data: each constructor holds what the
  closure captured. \<open>ReadCreate readConfig reads\<close> and \<open>WriteCreate writeConfig\<close> are those of
  \<^verbatim>\<open>ReplicationPool\<close>; \<open>ShardReadCreate readConfig reads shardId\<close> and
  \<open>ShardWriteCreate writeConfig shardId\<close> those of \<^verbatim>\<open>ShardedReplicationPool\<close>, whose
  configurations are references into \<open>options_heap\<close>. \<open>reads\<close> is the closure's
  \<^verbatim>\<open>let reads = 0\<close>; as a JavaScript number it counts exactly below \<open>2 ^ 53\<close>, which is
  out of reach of a pool, so it is a \<open>nat\<close> here.
\<close>

datatype create_closure =
    ReadCreate "connection_options list" nat
  | WriteCreate connection_options
  | ShardReadCreate "nat list" nat string
  | ShardWriteCreate nat string

text \<open>
  \<^verbatim>\<open>const connection = await connect(opts); owningPools.set(connection, tag)\<close> for the two
  modules: the call is logged; when it resolves, a new connection object, open to the backend
  of \<open>opts\<close>, is allocated and recorded in the module's \<^verbatim>\<open>WeakMap\<close>.
\<close>

definition connect_and_record :: "adapter \<Rightarrow> connection_options \<Rightarrow> string \<Rightarrow> world \<Rightarrow> (error + nat) \<times> world" where
  "connect_and_record ad opts tag w =
     (let w1 = w\<lparr>connect_log := connect_log w @ [opts]\<rparr> in
      case connect ad (length (connect_log w)) opts of
        Some e \<Rightarrow> (Inl e, w1)
      | None \<Rightarrow>
          (let c = next_conn w1 in
           (Inr c, w1\<lparr>next_conn := Suc c, owningPools := (owningPools w1)(c \<mapsto> tag),
                       conn_options := (conn_options w1)(c \<mapsto> opts)\<rparr>)))"

definition shard_connect_and_record :: "adapter \<Rightarrow> connection_options \<Rightarrow> string \<Rightarrow> world \<Rightarrow> (error + nat) \<times> world" where
  "shard_connect_and_record ad opts tag w =
     (let w1 = w\<lparr>connect_log := connect_log w @ [opts]\<rparr> in
      case connect ad (length (connect_log w)) opts of
        Some e \<Rightarrow> (Inl e, w1)
      | None \<Rightarrow>
          (let c = next_conn w1 in
           (Inr c, w1\<lparr>next_conn := Suc c, shardOwningPools := (shardOwningPools w1)(c \<mapsto> tag),
                       conn_options := (conn_options w1)(c \<mapsto> opts)\<rparr>)))"

text \<open>
  Running a \<^verbatim>\<open>create\<close> closure. The read closures compute
  \<^verbatim>\<open>reads++ % readConfig.length\<close> before the connection attempt, so the counter advances
  whether or not \<^verbatim>\<open>connect\<close> resolves. The constructors only build a read closure for a
  non-empty \<^verbatim>\<open>readConfig\<close>, so the index is in range. The sharded closures assign
  \<^verbatim>\<open>shardId\<close> to the selected options object before they pass it to \<^verbatim>\<open>connect\<close>.
\<close>

fun run_create :: "adapter \<Rightarrow> create_closure \<Rightarrow> world \<Rightarrow> (error + nat) \<times> create_closure \<times> world" where
  "run_create ad (ReadCreate readConfig reads) w =
     (let nextRead = reads mod length readConfig;
          (r, w') = connect_and_record ad (readConfig ! nextRead) ''read'' w
      in (r, ReadCreate readConfig (reads + 1), w'))"
| "run_create ad (WriteCreate writeConfig) w =
     (let (r, w') = connect_and_record ad writeConfig ''write'' w
      in (r, WriteCreate writeConfig, w'))"
| "run_create ad (ShardReadCreate readConfig reads sid) w =
     (let nextRead = reads mod length readConfig;
          connectionOptions = readConfig ! nextRead;
          w1 = w\<lparr>options_heap := (options_heap w)
                 (connectionOptions := (options_heap w connectionOptions)\<lparr>shardId := Some sid\<rparr>)\<rparr>;
          (r, w') = shard_connect_and_record ad (options_heap w1 connectionOptions) (''read:'' @ sid) w1
      in (r, ShardReadCreate readConfig (reads + 1) sid, w'))"
| "run_create ad (ShardWriteCreate writeConfig sid) w =
     (let w1 = w\<lparr>options_heap := (options_heap w)
                 (writeConfig := (options_heap w writeConfig)\<lparr>shardId := Some sid\<rparr>)\<rparr>;
          (r, w') = shard_connect_and_record ad (options_heap w1 writeConfig) (''write:'' @ sid) w1
      in (r, ShardWriteCreate writeConfig sid, w'))"

section \<open>SubPool\<close>

text \<open>
  Modelled from the spec: the \<^verbatim>\<open>Pool\<close> class comes from the package sequelize-pool, which is
  not part of the sources. The model follows section 4.1 of the specification for one caller
  at a time. A pool keeps its idle connections (\<open>sp_available\<close>) and its checked-out ones
  (\<open>sp_inUse\<close>), each with the number of times it was handed out, the number of queued
  \<^verbatim>\<open>acquire\<close> calls of other callers (\<open>sp_waiting\<close>), and its \<^verbatim>\<open>create\<close> closure. Of
  the pool options only \<^verbatim>\<open>max\<close> and \<^verbatim>\<open>maxUses\<close> (\<open>None\<close> for \<^verbatim>\<open>Infinity\<close>) act here; \<^verbatim>\<open>min\<close>,
  \<^verbatim>\<open>idle\<close>, \<^verbatim>\<open>evict\<close> and the length of the \<^verbatim>\<open>acquire\<close> timeout steer the timers of the
  pool, which are outside this model.
\<close>

record pool_options =
  opt_max :: nat
  opt_min :: nat
  opt_idle :: nat
  opt_acquire :: nat
  opt_evict :: nat
  opt_maxUses :: "nat option"

record subpool =
  sp_max :: nat
  sp_maxUses :: "nat option"
  sp_available :: "(nat \<times> nat) list"
  sp_inUse :: "(nat \<times> nat) list"
  sp_waiting :: nat
  sp_closed :: bool
  sp_create :: create_closure

definition new_Pool :: "pool_options \<Rightarrow> create_closure \<Rightarrow> subpool" where
  "new_Pool opts cl =
     \<lparr>sp_max = opt_max opts, sp_maxUses = opt_maxUses opts, sp_available = [], sp_inUse = [],
      sp_waiting = 0, sp_closed = False, sp_create = cl\<rparr>"

definition pool_size :: "subpool \<Rightarrow> nat" where
  "pool_size sp = length (sp_available sp) + length (sp_inUse sp)"

definition pool_available :: "subpool \<Rightarrow> nat" where
  "pool_available sp = length (sp_available sp)"

definition pool_using :: "subpool \<Rightarrow> nat" where
  "pool_using sp = length (sp_inUse sp)"

definition pool_waiting :: "subpool \<Rightarrow> nat" where
  "pool_waiting sp = sp_waiting sp"

text \<open>
  Modelled from the spec: reuse of an idle connection by \<^verbatim>\<open>Pool.acquire\<close> (sequelize-pool,
  not in the sources). The first idle connection that passes \<^verbatim>\<open>validate\<close> is taken;
  those that fail before it are destroyed silently (\<^verbatim>\<open>disconnect\<close> is called, its outcome
  dropped).
\<close>

fun take_valid :: "adapter \<Rightarrow> (nat \<times> nat) list \<Rightarrow> world \<Rightarrow> (nat \<times> nat) option \<times> (nat \<times> nat) list \<times> world" where
  "take_valid ad [] w = (None, [], w)"
| "take_valid ad ((c, u) # rest) w =
     (if validate ad c then (Some (c, u), rest, w)
      else take_valid ad rest (w\<lparr>disconnect_log := disconnect_log w @ [c]\<rparr>))"

text \<open>
  Modelled from the spec: \<^verbatim>\<open>Pool.acquire\<close> (sequelize-pool, not in the sources). It fails
  once the pool has been drained or destroyed; hands out a valid idle connection if there is
  one; otherwise creates one while fewer than \<^verbatim>\<open>max\<close> connections are tracked, and a
  rejection of \<^verbatim>\<open>connect\<close> reaches the caller as it is. With no idle connection and no free
  slot the caller waits; no other caller runs during the wait here, so it ends with the
  timeout error.
\<close>

definition pool_acquire :: "adapter \<Rightarrow> subpool \<Rightarrow> world \<Rightarrow> (error + nat) \<times> subpool \<times> world" where
  "pool_acquire ad sp w =
     (if sp_closed sp then (Inl (Error ''pool is draining and cannot accept work''), sp, w)
      else
        (case take_valid ad (sp_available sp) w of
           (Some (c, u), rest, w1) \<Rightarrow>
             (Inr c, sp\<lparr>sp_available := rest, sp_inUse := sp_inUse sp @ [(c, Suc u)]\<rparr>, w1)
         | (None, rest, w1) \<Rightarrow>
             if length (sp_inUse sp) < sp_max sp then
               (case run_create ad (sp_create sp) w1 of
                  (Inl e, cl, w2) \<Rightarrow> (Inl e, sp\<lparr>sp_available := rest, sp_create := cl\<rparr>, w2)
                | (Inr c, cl, w2) \<Rightarrow>
                    (Inr c, sp\<lparr>sp_available := rest, sp_inUse := sp_inUse sp @ [(c, 1)],
                               sp_create := cl\<rparr>, w2))
             else (Inl (TimeoutError ''Operation timeout''), sp\<lparr>sp_available := rest\<rparr>, w1)))"

text \<open>
  Modelled from the spec: \<^verbatim>\<open>Pool.release\<close> (sequelize-pool, not in the sources). A
  checked-out connection goes back to the idle set, or is destroyed when it has exceeded
  \<^verbatim>\<open>maxUses\<close>. A connection the pool has not checked out is left alone.
\<close>

definition pool_release :: "adapter \<Rightarrow> subpool \<Rightarrow> nat \<Rightarrow> world \<Rightarrow> subpool \<times> world" where
  "pool_release ad sp c w =
     (case map_of (sp_inUse sp) c of
        None \<Rightarrow> (sp, w)
      | Some u \<Rightarrow>
          (let sp1 = sp\<lparr>sp_inUse := AList.delete c (sp_inUse sp)\<rparr> in
           if (case sp_maxUses sp of None \<Rightarrow> False | Some m \<Rightarrow> m < u)
           then (sp1, w\<lparr>disconnect_log := disconnect_log w @ [c]\<rparr>)
           else (sp1\<lparr>sp_available := sp_available sp @ [(c, u)]\<rparr>, w)))"

text \<open>
  Modelled from the spec: \<^verbatim>\<open>Pool.destroy\<close> (sequelize-pool, not in the sources). The
  connection leaves the accounting, idle or checked out, and is closed with \<^verbatim>\<open>disconnect\<close>,
  whose rejection reaches the caller as it is.
\<close>

definition pool_destroy :: "adapter \<Rightarrow> subpool \<Rightarrow> nat \<Rightarrow> world \<Rightarrow> error option \<times> subpool \<times> world" where
  "pool_destroy ad sp c w =
     (disconnect ad c,
      sp\<lparr>sp_available := AList.delete c (sp_available sp), sp_inUse := AList.delete c (sp_inUse sp)\<rparr>,
      w\<lparr>disconnect_log := disconnect_log w @ [c]\<rparr>)"

text \<open>
  Modelled from the spec: the outcome of the promise a SubPool returns from
  \<^verbatim>\<open>destroyAllNow()\<close> or \<^verbatim>\<open>drain()\<close> (sequelize-pool, not in the sources). It fulfils, it
  rejects, or it waits for a release that no call made here brings about.
\<close>

datatype outcome = Waiting | Fulfilled | Rejected error

text \<open>
  Modelled from the spec: \<^verbatim>\<open>Pool.destroyAllNow\<close> (sequelize-pool, not in the sources), after
  section 4.1 of the specification. It closes every tracked connection, idle and checked
  out, without waiting; every \<^verbatim>\<open>disconnect\<close> is attempted and the first rejection, if any,
  is the outcome. It is terminal: \<^verbatim>\<open>acquire\<close> fails afterwards.
\<close>

fun first_error :: "error option list \<Rightarrow> error option" where
  "first_error [] = None"
| "first_error (None # rs) = first_error rs"
| "first_error (Some e # rs) = Some e"

definition pool_destroyAllNow :: "adapter \<Rightarrow> subpool \<Rightarrow> world \<Rightarrow> outcome \<times> subpool \<times> world" where
  "pool_destroyAllNow ad sp w =
     (let cs = map fst (sp_available sp) @ map fst (sp_inUse sp) in
      ((case first_error (map (disconnect ad) cs) of None \<Rightarrow> Fulfilled | Some e \<Rightarrow> Rejected e),
       sp\<lparr>sp_available := [], sp_inUse := [], sp_closed := True\<rparr>,
       w\<lparr>disconnect_log := disconnect_log w @ cs\<rparr>))"

text \<open>
  Modelled from the spec: \<^verbatim>\<open>Pool.drain\<close> (sequelize-pool, not in the sources), after section
  4.1 of the specification: it stops accepting \<^verbatim>\<open>acquire\<close> calls, waits for all checked-out
  connections to be released, then destroys everything. The pool refuses \<^verbatim>\<open>acquire\<close> from
  the call on. While a connection is checked out nothing is destroyed and the promise waits
  for the holders; no holder runs during the call here, so the outcome is then \<open>Waiting\<close>.
  With no connection checked out the idle connections are closed with \<^verbatim>\<open>disconnect\<close> and the
  promise fulfils. The specification names no failure of \<^verbatim>\<open>drain\<close>, and has failures of
  \<^verbatim>\<open>disconnect\<close> not block the shutdown (its section 6), so the outcome of these
  \<^verbatim>\<open>disconnect\<close> calls is dropped.
\<close>

definition pool_drain :: "adapter \<Rightarrow> subpool \<Rightarrow> world \<Rightarrow> outcome \<times> subpool \<times> world" where
  "pool_drain ad sp w =
     (if sp_inUse sp = []
      then (Fulfilled, sp\<lparr>sp_available := [], sp_closed := True\<rparr>,
            w\<lparr>disconnect_log := disconnect_log w @ map fst (sp_available sp)\<rparr>)
      else (Waiting, sp\<lparr>sp_closed := True\<rparr>, w))"

section \<open>Promises\<close>





section \<open>ReplicationPool\<close>

text \<open>
  \<^verbatim>\<open>AcquireConnectionOptions\<close>. Both properties may be missing; \<open>otype\<close> is the property
  \<^verbatim>\<open>type\<close>, a string because \<^verbatim>\<open>acquire\<close> checks it at run time.
\<close>

record acquire_options =
  otype :: "string option"
  useMaster :: "bool option"

text \<open>
  The object: the two SubPools (\<^verbatim>\<open>this.read\<close>, \<^verbatim>\<open>this.write\<close>), the class for timeout errors
  (by name) and the two hooks. \<^verbatim>\<open>beforeAcquire\<close> receives the cloned options object and may
  assign to it, so the hook returns the options as it leaves them; a hook rejects by
  returning an error. The hooks do not call the pool.
\<close>

record replication_pool =
  rp_read :: "subpool option"
  rp_write :: subpool
  timeoutErrorClass :: "string option"
  beforeAcquire :: "(acquire_options \<Rightarrow> error + acquire_options) option"
  afterAcquire :: "(nat \<Rightarrow> acquire_options \<Rightarrow> error option) option"

text \<open>
  The constructor's configuration. Its \<^verbatim>\<open>connect\<close>, \<^verbatim>\<open>disconnect\<close> and \<^verbatim>\<open>validate\<close> are the
  \<open>adapter\<close> the operations take.
\<close>

record replication_pool_config =
  readConfig :: "connection_options list option"
  writeConfig :: connection_options
  cfg_pool :: pool_options
  cfg_timeoutErrorClass :: "string option"
  cfg_beforeAcquire :: "(acquire_options \<Rightarrow> error + acquire_options) option"
  cfg_afterAcquire :: "(nat \<Rightarrow> acquire_options \<Rightarrow> error option) option"

definition ReplicationPool :: "replication_pool_config \<Rightarrow> replication_pool" where
  "ReplicationPool config =
     \<lparr>rp_read =
        (case readConfig config of
           None \<Rightarrow> None
         | Some rc \<Rightarrow> if length rc = 0 then None else Some (new_Pool (cfg_pool config) (ReadCreate rc 0))),
      rp_write = new_Pool (cfg_pool config) (WriteCreate (writeConfig config)),
      timeoutErrorClass = cfg_timeoutErrorClass config,
      beforeAcquire = cfg_beforeAcquire config,
      afterAcquire = cfg_afterAcquire config\<rparr>"

text \<open>
  A \<^verbatim>\<open>Pool\<close> object is a reference: \<open>ReadPool\<close> is \<^verbatim>\<open>this.read\<close>, \<open>WritePool\<close> is
  \<^verbatim>\<open>this.write\<close>. \<open>store_pool\<close> puts the state a SubPool operation returned back in place.
\<close>

datatype pool_ref = ReadPool | WritePool

fun store_pool :: "replication_pool \<Rightarrow> pool_ref \<Rightarrow> subpool \<Rightarrow> replication_pool" where
  "store_pool this ReadPool sp = this\<lparr>rp_read := Some sp\<rparr>"
| "store_pool this WritePool sp = this\<lparr>rp_write := sp\<rparr>"

fun message :: "error \<Rightarrow> string" where
  "message (Error m) = m"
| "message (TimeoutError m) = m"
| "message (TimeoutErrorClass cls m cause) = m"

text \<open>\<^verbatim>\<open>error instanceof TimeoutError\<close>.\<close>

fun instanceof_TimeoutError :: "error \<Rightarrow> bool" where
  "instanceof_TimeoutError (TimeoutError m) = True"
| "instanceof_TimeoutError (Error m) = False"
| "instanceof_TimeoutError (TimeoutErrorClass cls m cause) = False"

text \<open>
  The pieces of \<^verbatim>\<open>acquire\<close> of abstract-dialect/replication-pool.ts, in the order of the
  source. \<open>run_beforeAcquire\<close>: the options are cloned (a missing argument gives an empty
  object) and handed to the hook.
\<close>

definition run_beforeAcquire :: "replication_pool \<Rightarrow> acquire_options option \<Rightarrow> error + acquire_options" where
  "run_beforeAcquire this options =
     (let options1 = (case options of Some opts \<Rightarrow> opts | None \<Rightarrow> \<lparr>otype = None, useMaster = None\<rparr>) in
      case beforeAcquire this of
        None \<Rightarrow> Inr options1
      | Some hook \<Rightarrow> hook options1)"

text \<open>\<^verbatim>\<open>const { useMaster = false, type = 'write' } = options\<close>.\<close>

definition useMaster_or_default :: "'a acquire_options_scheme \<Rightarrow> bool" where
  "useMaster_or_default options = (case useMaster options of None \<Rightarrow> False | Some b \<Rightarrow> b)"

definition type_or_default :: "'a acquire_options_scheme \<Rightarrow> string" where
  "type_or_default options = (case otype options of None \<Rightarrow> ''write'' | Some t \<Rightarrow> t)"

text \<open>
  \<^verbatim>\<open>this.read != null && type === 'read' && !useMaster ? this.read : this.write\<close>: the
  \<^verbatim>\<open>Pool\<close> object chosen, with its state.
\<close>

definition select_pool :: "replication_pool \<Rightarrow> string \<Rightarrow> bool \<Rightarrow> pool_ref \<times> subpool" where
  "select_pool this type' useMaster' =
     (case rp_read this of
        Some rd \<Rightarrow> if type' = ''read'' \<and> \<not> useMaster' then (ReadPool, rd) else (WritePool, rp_write this)
      | None \<Rightarrow> (WritePool, rp_write this))"

text \<open>The \<^verbatim>\<open>catch\<close> block around \<^verbatim>\<open>pool.acquire()\<close>: the error that is thrown on.\<close>

definition rethrow :: "replication_pool \<Rightarrow> error \<Rightarrow> error" where
  "rethrow this error =
     (case timeoutErrorClass this of
        Some cls \<Rightarrow>
          if instanceof_TimeoutError error then TimeoutErrorClass cls (message error) error
          else error
      | None \<Rightarrow> error)"

text \<open>\<^verbatim>\<open>await this.afterAcquire?.(connection, options)\<close>: \<open>Some e\<close> when the hook rejects.\<close>

definition run_afterAcquire :: "replication_pool \<Rightarrow> nat \<Rightarrow> acquire_options \<Rightarrow> error option" where
  "run_afterAcquire this connection options =
     (case afterAcquire this of
        None \<Rightarrow> None
      | Some hook \<Rightarrow> hook connection options)"

definition acquire :: "adapter \<Rightarrow> replication_pool \<Rightarrow> acquire_options option \<Rightarrow> world \<Rightarrow> (error + nat) \<times> replication_pool \<times> world" where
  "acquire ad this options w =
     (case run_beforeAcquire this options of
        Inl e \<Rightarrow> (Inl e, this, w)
      | Inr options2 \<Rightarrow>
          (let useMaster' = useMaster_or_default options2;
               type' = type_or_default options2
           in
             if type' \<noteq> ''read'' \<and> type' \<noteq> ''write''
             then (Inl (Error (''Expected queryType to be either read or write. Received '' @ type')), this, w)
             else
               (let (pool, sp) = select_pool this type' useMaster' in
                case pool_acquire ad sp w of
                  (Inl error, sp', w') \<Rightarrow> (Inl (rethrow this error), store_pool this pool sp', w')
                | (Inr connection, sp', w') \<Rightarrow>
                    (case run_afterAcquire this connection options2 of
                       Some e \<Rightarrow> (Inl e, store_pool this pool sp', w')
                     | None \<Rightarrow> (Inr connection, store_pool this pool sp', w')))))"

text \<open>
  \<^verbatim>\<open>acquire\<close> of dialects/abstract/replication-pool.ts, the same class without hooks and
  without the timeout class: the chosen pool's \<^verbatim>\<open>acquire()\<close> is returned as it is.
\<close>

definition acquire_0 :: "adapter \<Rightarrow> replication_pool \<Rightarrow> acquire_options \<Rightarrow> world \<Rightarrow> (error + nat) \<times> replication_pool \<times> world" where
  "acquire_0 ad this options w =
     (let type' = type_or_default options;
          useMaster' = useMaster_or_default options
      in
        if type' \<noteq> ''read'' \<and> type' \<noteq> ''write''
        then (Inl (Error (''Expected queryType to be either read or write. Received '' @ type')), this, w)
        else
          (case rp_read this of
             Some rd \<Rightarrow>
               if type' = ''read'' \<and> \<not> useMaster'
               then (let (r, sp', w') = pool_acquire ad rd w in (r, store_pool this ReadPool sp', w'))
               else (let (r, sp', w') = pool_acquire ad (rp_write this) w in (r, store_pool this WritePool sp', w'))
           | None \<Rightarrow>
               (let (r, sp', w') = pool_acquire ad (rp_write this) w in (r, store_pool this WritePool sp', w'))))"

definition getPool :: "replication_pool \<Rightarrow> string \<Rightarrow> pool_ref \<times> subpool" where
  "getPool this poolType =
     (if poolType = ''read'' then
        (case rp_read this of
           Some rd \<Rightarrow> (ReadPool, rd)
         | None \<Rightarrow> (WritePool, rp_write this))
      else (WritePool, rp_write this))"

text \<open>
  \<^verbatim>\<open>release\<close> and \<^verbatim>\<open>destroy\<close>. The result is \<open>Some e\<close> when the call throws or rejects with \<open>e\<close>.
  \<^verbatim>\<open>!connectionType\<close> holds for a missing entry and for the empty string.
\<close>

definition release :: "adapter \<Rightarrow> replication_pool \<Rightarrow> nat \<Rightarrow> world \<Rightarrow> error option \<times> replication_pool \<times> world" where
  "release ad this connection w =
     (case owningPools w connection of
        None \<Rightarrow> (Some (Error ''Unable to determine to which pool the connection belongs''), this, w)
      | Some connectionType \<Rightarrow>
          if connectionType = []
          then (Some (Error ''Unable to determine to which pool the connection belongs''), this, w)
          else
            (let (pool, sp) = getPool this connectionType;
                 (sp', w') = pool_release ad sp connection w
             in (None, store_pool this pool sp', w')))"

definition destroy :: "adapter \<Rightarrow> replication_pool \<Rightarrow> nat \<Rightarrow> world \<Rightarrow> error option \<times> replication_pool \<times> world" where
  "destroy ad this connection w =
     (case owningPools w connection of
        None \<Rightarrow> (Some (Error ''Unable to determine to which pool the connection belongs''), this, w)
      | Some connectionType \<Rightarrow>
          if connectionType = []
          then (Some (Error ''Unable to determine to which pool the connection belongs''), this, w)
          else
            (let (pool, sp) = getPool this connectionType;
                 (r, sp', w') = pool_destroy ad sp connection w
             in (r, store_pool this pool sp', w')))"





text \<open>The aggregate getters \<^verbatim>\<open>size\<close>, \<^verbatim>\<open>available\<close>, \<^verbatim>\<open>using\<close> and \<^verbatim>\<open>waiting\<close>.\<close>

definition size_rp :: "replication_pool \<Rightarrow> nat" where
  "size_rp this = (case rp_read this of Some rd \<Rightarrow> pool_size rd | None \<Rightarrow> 0) + pool_size (rp_write this)"


definition using_rp :: "replication_pool \<Rightarrow> nat" where
  "using_rp this = (case rp_read this of Some rd \<Rightarrow> pool_using rd | None \<Rightarrow> 0) + pool_using (rp_write this)"

definition waiting_rp :: "replication_pool \<Rightarrow> nat" where
  "waiting_rp this = (case rp_read this of Some rd \<Rightarrow> pool_waiting rd | None \<Rightarrow> 0) + pool_waiting (rp_write this)"

section \<open>ShardedReplicationPool\<close>

text \<open>
  One entry of \<^verbatim>\<open>shards\<close>. The configurations are the caller's objects, held by address.
\<close>

record shard_config =
  sc_shardId :: string
  sc_readConfig :: "nat list option"
  sc_writeConfig :: nat

text \<open>
  The configuration interface also declares \<^verbatim>\<open>timeoutErrorClass\<close> and the two hooks; the
  constructor reads \<^verbatim>\<open>shards\<close> and \<^verbatim>\<open>pool\<close> (and the adapter functions) only.
\<close>

record sharded_replication_pool_config =
  shards :: "shard_config list"
  sharded_cfg_pool :: pool_options
  sharded_cfg_timeoutErrorClass :: "string option"
  sharded_cfg_beforeAcquire :: "(acquire_options \<Rightarrow> error + acquire_options) option"
  sharded_cfg_afterAcquire :: "(nat \<Rightarrow> acquire_options \<Rightarrow> error option) option"

text \<open>
  The object. \<^verbatim>\<open>this.read\<close> and \<^verbatim>\<open>this.write\<close> are \<^verbatim>\<open>Map\<close>s, which keep their keys in
  insertion order: association lists, written with \<open>AList.update\<close> (a key that is present
  keeps its place). A \<^verbatim>\<open>null\<close> entry of \<^verbatim>\<open>this.read\<close> is \<open>None\<close>. The fields
  \<^verbatim>\<open>timeoutErrorClass\<close>, \<^verbatim>\<open>beforeAcquire\<close> and \<^verbatim>\<open>afterAcquire\<close> are declared and never
  assigned.
\<close>

record sharded_replication_pool =
  srp_read :: "(string \<times> subpool option) list"
  srp_write :: "(string \<times> subpool) list"
  srp_timeoutErrorClass :: "string option"
  srp_beforeAcquire :: "(acquire_options \<Rightarrow> error + acquire_options) option"
  srp_afterAcquire :: "(nat \<Rightarrow> acquire_options \<Rightarrow> error option) option"

text \<open>The body of the constructor's loop \<^verbatim>\<open>for (const shard of shards)\<close>.\<close>

definition add_shard :: "pool_options \<Rightarrow> shard_config \<Rightarrow> sharded_replication_pool \<Rightarrow> sharded_replication_pool" where
  "add_shard po shard this =
     (let sid = sc_shardId shard;
          this1 =
            (case sc_readConfig shard of
               None \<Rightarrow> this\<lparr>srp_read := AList.update sid None (srp_read this)\<rparr>
             | Some rc \<Rightarrow>
                 if length rc = 0 then this\<lparr>srp_read := AList.update sid None (srp_read this)\<rparr>
                 else this\<lparr>srp_read := AList.update sid (Some (new_Pool po (ShardReadCreate rc 0 sid))) (srp_read this)\<rparr>)
      in this1\<lparr>srp_write := AList.update sid (new_Pool po (ShardWriteCreate (sc_writeConfig shard) sid)) (srp_write this1)\<rparr>)"

definition ShardedReplicationPool :: "sharded_replication_pool_config \<Rightarrow> sharded_replication_pool" where
  "ShardedReplicationPool config =
     fold (add_shard (sharded_cfg_pool config)) (shards config)
       \<lparr>srp_read = [], srp_write = [], srp_timeoutErrorClass = None,
        srp_beforeAcquire = None, srp_afterAcquire = None\<rparr>"

text \<open>
  The options of the sharded \<^verbatim>\<open>acquire\<close>: \<^verbatim>\<open>AcquireConnectionOptions\<close> with the shard id.
\<close>

record sharded_acquire_options = acquire_options +
  opt_shardId :: string

fun sharded_store_pool :: "sharded_replication_pool \<Rightarrow> pool_ref \<times> string \<Rightarrow> subpool \<Rightarrow> sharded_replication_pool" where
  "sharded_store_pool this (ReadPool, sid) sp = this\<lparr>srp_read := AList.update sid (Some sp) (srp_read this)\<rparr>"
| "sharded_store_pool this (WritePool, sid) sp = this\<lparr>srp_write := AList.update sid sp (srp_write this)\<rparr>"

text \<open>
  \<^verbatim>\<open>getPool\<close> of the current class (the second class of sharded-replication-pool.ts, which
  is also the class of src/unnamed/part_000). \<^verbatim>\<open>this.read != null\<close> holds always, \<^verbatim>\<open>this.read\<close> being the \<^verbatim>\<open>Map\<close>.
  \<^verbatim>\<open>this.read.get(shardId) ?? null\<close> is \<^verbatim>\<open>null\<close> for a missing key and for a \<^verbatim>\<open>null\<close> entry.
  The result names the \<^verbatim>\<open>Pool\<close> object and gives its state.
\<close>

definition sharded_getPool :: "sharded_replication_pool \<Rightarrow> string \<Rightarrow> string \<Rightarrow> bool \<Rightarrow> ((pool_ref \<times> string) \<times> subpool) option" where
  "sharded_getPool this sid poolType useMaster' =
     (if poolType = ''read'' \<and> \<not> useMaster' then
        (case map_of (srp_read this) sid of
           Some (Some sp) \<Rightarrow> Some ((ReadPool, sid), sp)
         | Some None \<Rightarrow> None
         | None \<Rightarrow> None)
      else
        (case map_of (srp_write this) sid of
           Some sp \<Rightarrow> Some ((WritePool, sid), sp)
         | None \<Rightarrow> None))"

text \<open>\<^verbatim>\<open>getPool\<close> of the first class of sharded-replication-pool.ts, which has no \<^verbatim>\<open>useMaster\<close>.\<close>

definition sharded_getPool_0 :: "sharded_replication_pool \<Rightarrow> string \<Rightarrow> string \<Rightarrow> ((pool_ref \<times> string) \<times> subpool) option" where
  "sharded_getPool_0 this sid poolType =
     (if poolType = ''read'' then
        (case map_of (srp_read this) sid of
           Some (Some sp) \<Rightarrow> Some ((ReadPool, sid), sp)
         | Some None \<Rightarrow> None
         | None \<Rightarrow> None)
      else
        (case map_of (srp_write this) sid of
           Some sp \<Rightarrow> Some ((WritePool, sid), sp)
         | None \<Rightarrow> None))"

text \<open>
  \<^verbatim>\<open>acquire\<close> of the current class: no default for \<^verbatim>\<open>type\<close>, no hook, no handler around
  \<^verbatim>\<open>pool.acquire()\<close>. The connection object gets its \<^verbatim>\<open>shardId\<close> property.
\<close>

definition sharded_acquire :: "adapter \<Rightarrow> sharded_replication_pool \<Rightarrow> sharded_acquire_options \<Rightarrow> world \<Rightarrow> (error + nat) \<times> sharded_replication_pool \<times> world" where
  "sharded_acquire ad this options w =
     (case otype options of
        None \<Rightarrow> (Inl (Error ''Expected queryType to be either read or write. Received undefined''), this, w)
      | Some type' \<Rightarrow>
          if type' \<noteq> ''read'' \<and> type' \<noteq> ''write''
          then (Inl (Error (''Expected queryType to be either read or write. Received '' @ type')), this, w)
          else
            (case sharded_getPool this (opt_shardId options) type' (useMaster_or_default options) of
               None \<Rightarrow>
                 (Inl (Error (''No '' @ type' @ '' pool found for shard '' @ opt_shardId options)), this, w)
             | Some (pool, sp) \<Rightarrow>
                 (case pool_acquire ad sp w of
                    (Inl e, sp', w') \<Rightarrow> (Inl e, sharded_store_pool this pool sp', w')
                  | (Inr connection, sp', w') \<Rightarrow>
                      (Inr connection, sharded_store_pool this pool sp',
                       w'\<lparr>conn_shardId := (conn_shardId w')(connection \<mapsto> opt_shardId options)\<rparr>))))"

text \<open>
  \<^verbatim>\<open>acquire\<close> of the first class: \<^verbatim>\<open>type\<close> defaults to \<^verbatim>\<open>'write'\<close>, and the pool is looked up
  by shard and type alone. Its two branches on \<^verbatim>\<open>type === 'read' && !useMaster\<close> run the
  same statements.
\<close>

definition sharded_acquire_0 :: "adapter \<Rightarrow> sharded_replication_pool \<Rightarrow> sharded_acquire_options \<Rightarrow> world \<Rightarrow> (error + nat) \<times> sharded_replication_pool \<times> world" where
  "sharded_acquire_0 ad this options w =
     (let type' = type_or_default options;
          useMaster' = useMaster_or_default options
      in
        if type' \<noteq> ''read'' \<and> type' \<noteq> ''write''
        then (Inl (Error (''Expected queryType to be either read or write. Received '' @ type')), this, w)
        else
          (case sharded_getPool_0 this (opt_shardId options) type' of
             None \<Rightarrow>
               (Inl (Error (''No '' @ type' @ '' pool found for shard '' @ opt_shardId options)), this, w)
           | Some (pool, sp) \<Rightarrow>
               if type' = ''read'' \<and> \<not> useMaster' then
                 (case pool_acquire ad sp w of
                    (Inl e, sp', w') \<Rightarrow> (Inl e, sharded_store_pool this pool sp', w')
                  | (Inr connection, sp', w') \<Rightarrow>
                      (Inr connection, sharded_store_pool this pool sp',
                       w'\<lparr>conn_shardId := (conn_shardId w')(connection \<mapsto> opt_shardId options)\<rparr>))
               else
                 (case pool_acquire ad sp w of
                    (Inl e, sp', w') \<Rightarrow> (Inl e, sharded_store_pool this pool sp', w')
                  | (Inr connection, sp', w') \<Rightarrow>
                      (Inr connection, sharded_store_pool this pool sp',
                       w'\<lparr>conn_shardId := (conn_shardId w')(connection \<mapsto> opt_shardId options)\<rparr>))))"

text \<open>
  \<^verbatim>\<open>shardValue.split(':')\<close>, and \<^verbatim>\<open>shardValueToTuple\<close>, which takes the first two pieces as
  type and shard id. The shard id is \<^verbatim>\<open>undefined\<close> (\<open>None\<close>) when there is one piece only.
\<close>

fun split_colon :: "string \<Rightarrow> string list" where
  "split_colon [] = [[]]"
| "split_colon (c # cs) =
     (if c = CHR '':'' then [] # split_colon cs
      else (case split_colon cs of
              [] \<Rightarrow> [[c]]
            | piece # pieces \<Rightarrow> (c # piece) # pieces))"

definition shardValueToTuple :: "string \<Rightarrow> string option \<times> string" where
  "shardValueToTuple shardValue =
     (case split_colon shardValue of
        type' # sid # rest \<Rightarrow> (Some sid, type')
      | [type'] \<Rightarrow> (None, type')
      | [] \<Rightarrow> (None, []))"

text \<open>
  \<^verbatim>\<open>release\<close> and \<^verbatim>\<open>destroy\<close> of the current class. \<^verbatim>\<open>getPool(...)?.release(connection)\<close> does
  nothing when \<^verbatim>\<open>getPool\<close> gives \<^verbatim>\<open>null\<close>; no \<^verbatim>\<open>Map\<close> key is \<^verbatim>\<open>undefined\<close>.
\<close>

definition sharded_release :: "adapter \<Rightarrow> sharded_replication_pool \<Rightarrow> nat \<Rightarrow> world \<Rightarrow> error option \<times> sharded_replication_pool \<times> world" where
  "sharded_release ad this connection w =
     (case shardOwningPools w connection of
        None \<Rightarrow> (Some (Error ''Unable to determine to which sharded pool the connection belongs''), this, w)
      | Some shardValue \<Rightarrow>
          if shardValue = []
          then (Some (Error ''Unable to determine to which sharded pool the connection belongs''), this, w)
          else
            (case shardValueToTuple shardValue of
               (None, type') \<Rightarrow> (None, this, w)
             | (Some sid, type') \<Rightarrow>
                 (case sharded_getPool this sid type' False of
                    None \<Rightarrow> (None, this, w)
                  | Some (pool, sp) \<Rightarrow>
                      (let (sp', w') = pool_release ad sp connection w
                       in (None, sharded_store_pool this pool sp', w')))))"

definition sharded_destroy :: "adapter \<Rightarrow> sharded_replication_pool \<Rightarrow> nat \<Rightarrow> world \<Rightarrow> error option \<times> sharded_replication_pool \<times> world" where
  "sharded_destroy ad this connection w =
     (case shardOwningPools w connection of
        None \<Rightarrow> (Some (Error ''Unable to determine to which sharded pool the connection belongs''), this, w)
      | Some shardValue \<Rightarrow>
          if shardValue = []
          then (Some (Error ''Unable to determine to which sharded pool the connection belongs''), this, w)
          else
            (case shardValueToTuple shardValue of
               (None, type') \<Rightarrow> (None, this, w)
             | (Some sid, type') \<Rightarrow>
                 (case sharded_getPool this sid type' False of
                    None \<Rightarrow> (None, this, w)
                  | Some (pool, sp) \<Rightarrow>
                      (let (r, sp', w') = pool_destroy ad sp connection w
                       in (r, sharded_store_pool this pool sp', w')))))"

text \<open>\<^verbatim>\<open>release\<close> and \<^verbatim>\<open>destroy\<close> of the first class.\<close>

definition sharded_release_0 :: "adapter \<Rightarrow> sharded_replication_pool \<Rightarrow> nat \<Rightarrow> world \<Rightarrow> error option \<times> sharded_replication_pool \<times> world" where
  "sharded_release_0 ad this connection w =
     (case shardOwningPools w connection of
        None \<Rightarrow> (Some (Error ''Unable to determine to which sharded pool the connection belongs''), this, w)
      | Some shardValue \<Rightarrow>
          if shardValue = []
          then (Some (Error ''Unable to determine to which sharded pool the connection belongs''), this, w)
          else
            (case shardValueToTuple shardValue of
               (None, type') \<Rightarrow> (None, this, w)
             | (Some sid, type') \<Rightarrow>
                 (case sharded_getPool_0 this sid type' of
                    None \<Rightarrow> (None, this, w)
                  | Some (pool, sp) \<Rightarrow>
                      (let (sp', w') = pool_release ad sp connection w
                       in (None, sharded_store_pool this pool sp', w')))))"

definition sharded_destroy_0 :: "adapter \<Rightarrow> sharded_replication_pool \<Rightarrow> nat \<Rightarrow> world \<Rightarrow> error option \<times> sharded_replication_pool \<times> world" where
  "sharded_destroy_0 ad this connection w =
     (case shardOwningPools w connection of
        None \<Rightarrow> (Some (Error ''Unable to determine to which sharded pool the connection belongs''), this, w)
      | Some shardValue \<Rightarrow>
          if shardValue = []
          then (Some (Error ''Unable to determine to which sharded pool the connection belongs''), this, w)
          else
            (case shardValueToTuple shardValue of
               (None, type') \<Rightarrow> (None, this, w)
             | (Some sid, type') \<Rightarrow>
                 (case sharded_getPool_0 this sid type' of
                    None \<Rightarrow> (None, this, w)
                  | Some (pool, sp) \<Rightarrow>
                      (let (r, sp', w') = pool_destroy ad sp connection w
                       in (r, sharded_store_pool this pool sp', w')))))"







text \<open>
  The per-shard getters of the current class. \<^verbatim>\<open>a?.size ?? 0 + (b?.size ?? 0)\<close> parses as
  \<^verbatim>\<open>a?.size ?? (0 + (b?.size ?? 0))\<close>, since \<^verbatim>\<open>+\<close> binds tighter than \<^verbatim>\<open>??\<close>: the sum is
  the value only when the read lookup gives \<^verbatim>\<open>null\<close>.
\<close>

definition shardSize :: "sharded_replication_pool \<Rightarrow> string \<Rightarrow> nat" where
  "shardSize this sid =
     (case sharded_getPool this sid ''read'' False of
        Some (pool, sp) \<Rightarrow> pool_size sp
      | None \<Rightarrow>
          0 + (case sharded_getPool this sid ''write'' True of
                 Some (pool, sp) \<Rightarrow> pool_size sp
               | None \<Rightarrow> 0))"

definition shardAvailable :: "sharded_replication_pool \<Rightarrow> string \<Rightarrow> nat" where
  "shardAvailable this sid =
     (case sharded_getPool this sid ''read'' False of
        Some (pool, sp) \<Rightarrow> pool_available sp
      | None \<Rightarrow>
          0 + (case sharded_getPool this sid ''write'' True of
                 Some (pool, sp) \<Rightarrow> pool_available sp
               | None \<Rightarrow> 0))"

definition shardUsing :: "sharded_replication_pool \<Rightarrow> string \<Rightarrow> nat" where
  "shardUsing this sid =
     (case sharded_getPool this sid ''read'' False of
        Some (pool, sp) \<Rightarrow> pool_using sp
      | None \<Rightarrow>
          0 + (case sharded_getPool this sid ''write'' True of
                 Some (pool, sp) \<Rightarrow> pool_using sp
               | None \<Rightarrow> 0))"

definition shardWaiting :: "sharded_replication_pool \<Rightarrow> string \<Rightarrow> nat" where
  "shardWaiting this sid =
     (case sharded_getPool this sid ''read'' False of
        Some (pool, sp) \<Rightarrow> pool_waiting sp
      | None \<Rightarrow>
          0 + (case sharded_getPool this sid ''write'' True of
                 Some (pool, sp) \<Rightarrow> pool_waiting sp
               | None \<Rightarrow> 0))"

text \<open>The per-shard getters of the first class.\<close>

definition shardSize_0 :: "sharded_replication_pool \<Rightarrow> string \<Rightarrow> nat" where
  "shardSize_0 this sid =
     (case sharded_getPool_0 this sid ''read'' of
        Some (pool, sp) \<Rightarrow> pool_size sp
      | None \<Rightarrow>
          0 + (case sharded_getPool_0 this sid ''write'' of
                 Some (pool, sp) \<Rightarrow> pool_size sp
               | None \<Rightarrow> 0))"

definition shardAvailable_0 :: "sharded_replication_pool \<Rightarrow> string \<Rightarrow> nat" where
  "shardAvailable_0 this sid =
     (case sharded_getPool_0 this sid ''read'' of
        Some (pool, sp) \<Rightarrow> pool_available sp
      | None \<Rightarrow>
          0 + (case sharded_getPool_0 this sid ''write'' of
                 Some (pool, sp) \<Rightarrow> pool_available sp
               | None \<Rightarrow> 0))"

definition shardUsing_0 :: "sharded_replication_pool \<Rightarrow> string \<Rightarrow> nat" where
  "shardUsing_0 this sid =
     (case sharded_getPool_0 this sid ''read'' of
        Some (pool, sp) \<Rightarrow> pool_using sp
      | None \<Rightarrow>
          0 + (case sharded_getPool_0 this sid ''write'' of
                 Some (pool, sp) \<Rightarrow> pool_using sp
               | None \<Rightarrow> 0))"

definition shardWaiting_0 :: "sharded_replication_pool \<Rightarrow> string \<Rightarrow> nat" where
  "shardWaiting_0 this sid =
     (case sharded_getPool_0 this sid ''read'' of
        Some (pool, sp) \<Rightarrow> pool_waiting sp
      | None \<Rightarrow>
          0 + (case sharded_getPool_0 this sid ''write'' of
                 Some (pool, sp) \<Rightarrow> pool_waiting sp
               | None \<Rightarrow> 0))"

text \<open>
  The aggregate getters run two loops over the values of the maps; \<open>sum_over_shards\<close> is
  their common shape for a counter \<open>f\<close>.
\<close>

definition sum_over_shards :: "(subpool \<Rightarrow> nat) \<Rightarrow> sharded_replication_pool \<Rightarrow> nat" where
  "sum_over_shards f this =
     fold (\<lambda>(sid, sp) total. total + f sp) (srp_write this)
       (fold (\<lambda>(sid, pool) total. total + (case pool of Some sp \<Rightarrow> f sp | None \<Rightarrow> 0)) (srp_read this) 0)"

definition sharded_size :: "sharded_replication_pool \<Rightarrow> nat" where
  "sharded_size this = sum_over_shards pool_size this"

definition sharded_available :: "sharded_replication_pool \<Rightarrow> nat" where
  "sharded_available this = sum_over_shards pool_available this"

definition sharded_using :: "sharded_replication_pool \<Rightarrow> nat" where
  "sharded_using this = sum_over_shards pool_using this"

definition sharded_waiting :: "sharded_replication_pool \<Rightarrow> nat" where
  "sharded_waiting this = sum_over_shards pool_waiting this"

section \<open>Concrete configurations\<close>

text \<open>
  An adapter whose calls all succeed, the state before any call (every options object
  without a \<^verbatim>\<open>shardId\<close>), pool options with a given \<^verbatim>\<open>max\<close>, and backend options by name.
\<close>

definition adapter_ok :: adapter where
  "adapter_ok = \<lparr>connect = (\<lambda>n opts. None), disconnect = (\<lambda>c. None), validate = (\<lambda>c. True)\<rparr>"

definition world_0 :: world where
  "world_0 =
     \<lparr>next_conn = 0, connect_log = [], disconnect_log = [], owningPools = Map.empty,
      shardOwningPools = Map.empty, options_heap = (\<lambda>a. \<lparr>params = [], shardId = None\<rparr>),
      conn_shardId = Map.empty, conn_options = Map.empty\<rparr>"

definition pool_options_max :: "nat \<Rightarrow> pool_options" where
  "pool_options_max m =
     \<lparr>opt_max = m, opt_min = 0, opt_idle = 10000, opt_acquire = 60000, opt_evict = 1000,
      opt_maxUses = None\<rparr>"

definition backend :: "string \<Rightarrow> connection_options" where
  "backend name = \<lparr>params = name, shardId = None\<rparr>"

text \<open>An unsharded deployment with two replicas.\<close>

definition replicas :: "connection_options list" where
  "replicas = [backend ''replica-a'', backend ''replica-b'']"

definition config_replicated :: replication_pool_config where
  "config_replicated =
     \<lparr>readConfig = Some replicas,
      writeConfig = backend ''primary'', cfg_pool = pool_options_max 5,
      cfg_timeoutErrorClass = None, cfg_beforeAcquire = None, cfg_afterAcquire = None\<rparr>"

text \<open>
  A sharded deployment: shard \<open>s1\<close> has no replicas and its primary's options at address 0;
  shard \<open>s2\<close> has its primary's options at address 1 and two replicas, at addresses 2 and 3.
  The caller asks for timeout errors of class \<open>ConnectionAcquireTimeoutError\<close>.
\<close>

definition shard_s1 :: shard_config where
  "shard_s1 = \<lparr>sc_shardId = ''s1'', sc_readConfig = None, sc_writeConfig = 0\<rparr>"

definition shard_s2 :: shard_config where
  "shard_s2 = \<lparr>sc_shardId = ''s2'', sc_readConfig = Some [2, 3], sc_writeConfig = 1\<rparr>"

definition config_sharded :: "nat \<Rightarrow> sharded_replication_pool_config" where
  "config_sharded m =
     \<lparr>shards = [shard_s1, shard_s2],
      sharded_cfg_pool = pool_options_max m,
      sharded_cfg_timeoutErrorClass = Some ''ConnectionAcquireTimeoutError'',
      sharded_cfg_beforeAcquire = None, sharded_cfg_afterAcquire = None\<rparr>"

text \<open>A deployment without replicas whose \<^verbatim>\<open>afterAcquire\<close> hook always rejects.\<close>

definition config_failing_hook :: replication_pool_config where
  "config_failing_hook =
     \<lparr>readConfig = None, writeConfig = backend ''primary'', cfg_pool = pool_options_max 5,
      cfg_timeoutErrorClass = None, cfg_beforeAcquire = None,
      cfg_afterAcquire = Some (\<lambda>connection options. Some (Error ''afterAcquire failed''))\<rparr>"

text \<open>A read that asks for the primary.\<close>

definition read_from_master :: acquire_options where
  "read_from_master = \<lparr>otype = Some ''read'', useMaster = Some True\<rparr>"


definition read_request :: acquire_options where
  "read_request = \<lparr>otype = Some ''read'', useMaster = None\<rparr>"





text \<open>
  Requests on a shard, the result of the first write request on a shard of the sharded
  deployment with \<^verbatim>\<open>max = 1\<close>, a second sharded deployment with the one shard \<open>s3\<close> (its
  pool shares the module's \<^verbatim>\<open>WeakMap\<close> with every other sharded pool), and a pool object from
  whose maps a shard has been deleted (the maps are public fields of the object).
\<close>

definition read_on :: "string \<Rightarrow> sharded_acquire_options" where
  "read_on sid = \<lparr>otype = Some ''read'', useMaster = Some False, opt_shardId = sid\<rparr>"

definition write_on :: "string \<Rightarrow> sharded_acquire_options" where
  "write_on sid = \<lparr>otype = Some ''write'', useMaster = None, opt_shardId = sid\<rparr>"

definition after_write_on :: "string \<Rightarrow> (error + nat) \<times> sharded_replication_pool \<times> world" where
  "after_write_on sid =
     sharded_acquire adapter_ok (ShardedReplicationPool (config_sharded 1)) (write_on sid) world_0"

definition config_other_shard :: sharded_replication_pool_config where
  "config_other_shard =
     \<lparr>shards = [\<lparr>sc_shardId = ''s3'', sc_readConfig = None, sc_writeConfig = 4\<rparr>],
      sharded_cfg_pool = pool_options_max 1, sharded_cfg_timeoutErrorClass = None,
      sharded_cfg_beforeAcquire = None, sharded_cfg_afterAcquire = None\<rparr>"

definition without_shard :: "string \<Rightarrow> sharded_replication_pool \<Rightarrow> sharded_replication_pool" where
  "without_shard sid this =
     this\<lparr>srp_read := AList.delete sid (srp_read this), srp_write := AList.delete sid (srp_write this)\<rparr>"




text \<open>
  The deployment with two replicas and a \<^verbatim>\<open>beforeAcquire\<close> hook that sends every request to
  the replicas: it assigns \<^verbatim>\<open>type = 'read'\<close> and \<^verbatim>\<open>useMaster = false\<close> to the options object
  it is given. A write that asks for the primary.
\<close>

definition config_hook_to_replicas :: replication_pool_config where
  "config_hook_to_replicas =
     \<lparr>readConfig = Some replicas,
      writeConfig = backend ''primary'', cfg_pool = pool_options_max 5,
      cfg_timeoutErrorClass = None,
      cfg_beforeAcquire = Some (\<lambda>options. Inr (options\<lparr>otype := Some ''read'', useMaster := Some False\<rparr>)),
      cfg_afterAcquire = None\<rparr>"

definition write_to_master :: acquire_options where
  "write_to_master = \<lparr>otype = Some ''write'', useMaster = Some True\<rparr>"


text \<open>
  An adapter whose first \<^verbatim>\<open>connect\<close> call rejects, and the unsharded deployment after a read
  request made with it.
\<close>

definition adapter_first_connect_fails :: adapter where
  "adapter_first_connect_fails =
     \<lparr>connect = (\<lambda>n opts. if n = 0 then Some (Error ''ECONNREFUSED'') else None),
      disconnect = (\<lambda>c. None),
      validate = (\<lambda>c. True)\<rparr>"

definition after_refused_read :: "(error + nat) \<times> replication_pool \<times> world" where
  "after_refused_read =
     acquire adapter_first_connect_fails (ReplicationPool config_replicated) (Some read_request) world_0"


section \<open>Notions used by the properties\<close>

text \<open>
  \<open>served_by ad sp w r sp' w'\<close>: the SubPool \<open>sp\<close> ran its \<^verbatim>\<open>acquire()\<close> in state \<open>w\<close>; \<open>sp'\<close> and
  \<open>w'\<close> are the states it left, and a connection in the result \<open>r\<close> is the one it handed out.
\<close>

definition served_by :: "adapter \<Rightarrow> subpool \<Rightarrow> world \<Rightarrow> error + nat \<Rightarrow> subpool \<Rightarrow> world \<Rightarrow> bool" where
  "served_by ad sp w r sp' w' =
     (snd (pool_acquire ad sp w) = (sp', w') \<and>
      (case r of Inr c \<Rightarrow> fst (pool_acquire ad sp w) = Inr c | Inl e \<Rightarrow> True))"

text \<open>
  A history of one SubPool: the operations its owner invokes on it, run in order.
\<close>

datatype pool_op = Acquire | Release nat | Destroy nat | DestroyAllNow | Drain

fun run_op :: "adapter \<Rightarrow> pool_op \<Rightarrow> subpool \<Rightarrow> world \<Rightarrow> subpool \<times> world" where
  "run_op ad Acquire sp w = snd (pool_acquire ad sp w)"
| "run_op ad (Release c) sp w = pool_release ad sp c w"
| "run_op ad (Destroy c) sp w = snd (pool_destroy ad sp c w)"
| "run_op ad DestroyAllNow sp w = snd (pool_destroyAllNow ad sp w)"
| "run_op ad Drain sp w = snd (pool_drain ad sp w)"

fun run_ops :: "adapter \<Rightarrow> pool_op list \<Rightarrow> subpool \<Rightarrow> world \<Rightarrow> subpool \<times> world" where
  "run_ops ad [] sp w = (sp, w)"
| "run_ops ad (x # xs) sp w = (case run_op ad x sp w of (sp', w') \<Rightarrow> run_ops ad xs sp' w')"

text \<open>A history with churn: connections are released, reused and destroyed between creations.\<close>

definition churn :: "pool_op list" where
  "churn = [Acquire, Acquire, Release 0, Destroy 1, Acquire, Destroy 0, Acquire, Acquire]"

text \<open>
  \<open>closure_of_shard shard cl\<close>: \<open>cl\<close> is a \<^verbatim>\<open>create\<close> closure the constructor's loop makes for
  the entry \<open>shard\<close> (with any value of the counter). \<open>pool_of_shards shs sid sp\<close>: the
  closure of the SubPool \<open>sp\<close> is that of an entry of \<open>shs\<close> with shard id \<open>sid\<close>.
  \<open>built_from shs this\<close>: every SubPool in the maps of \<open>this\<close> is one of \<open>shs\<close>, under its
  shard id.
\<close>

fun closure_of_shard :: "shard_config \<Rightarrow> create_closure \<Rightarrow> bool" where
  "closure_of_shard shard (ShardReadCreate rc n sid) =
     (sid = sc_shardId shard \<and> sc_readConfig shard = Some rc \<and> rc \<noteq> [])"
| "closure_of_shard shard (ShardWriteCreate a sid) =
     (sid = sc_shardId shard \<and> a = sc_writeConfig shard)"
| "closure_of_shard shard (ReadCreate rc n) = False"
| "closure_of_shard shard (WriteCreate opts) = False"

definition pool_of_shards :: "shard_config list \<Rightarrow> string \<Rightarrow> subpool \<Rightarrow> bool" where
  "pool_of_shards shs sid sp =
     list_ex (\<lambda>shard. sc_shardId shard = sid \<and> closure_of_shard shard (sp_create sp)) shs"

definition built_from :: "shard_config list \<Rightarrow> sharded_replication_pool \<Rightarrow> bool" where
  "built_from shs this =
     (list_all (\<lambda>(sid, pool). case pool of None \<Rightarrow> True | Some sp \<Rightarrow> pool_of_shards shs sid sp) (srp_read this)
      \<and> list_all (\<lambda>(sid, sp). pool_of_shards shs sid sp) (srp_write this))"

text \<open>
  The options objects of a shard entry: \<^verbatim>\<open>writeConfig\<close> and the elements of \<^verbatim>\<open>readConfig\<close>.
  \<open>wrote_shardId shs sid w w'\<close>: between \<open>w\<close> and \<open>w'\<close> one options object of an entry with
  shard id \<open>sid\<close> got \<open>sid\<close> as its \<^verbatim>\<open>shardId\<close>, nothing else changed on the heap, and the
  object, as it then was, was passed to one more \<^verbatim>\<open>connect\<close> call.
\<close>

definition config_objects :: "shard_config \<Rightarrow> nat list" where
  "config_objects shard =
     sc_writeConfig shard # (case sc_readConfig shard of None \<Rightarrow> [] | Some rc \<Rightarrow> rc)"

definition wrote_shardId :: "shard_config list \<Rightarrow> string \<Rightarrow> world \<Rightarrow> world \<Rightarrow> bool" where
  "wrote_shardId shs sid w w' =
     list_ex (\<lambda>shard. sc_shardId shard = sid \<and>
        list_ex (\<lambda>a. options_heap w' = (options_heap w)(a := (options_heap w a)\<lparr>shardId := Some sid\<rparr>)
                    \<and> connect_log w' = connect_log w @ [options_heap w' a])
          (config_objects shard)) shs"




definition draining :: "subpool \<Rightarrow> bool" where
  "draining sp = (sp_closed sp \<and> (sp_inUse sp \<noteq> [] \<or> sp_available sp = []))"



section \<open>Properties\<close>

subsection \<open>Evaluation of the concrete configurations\<close>

text \<open>The definitions that the evaluation of a concrete call unfolds.\<close>

lemmas fixture_defs = adapter_ok_def world_0_def pool_options_max_def backend_def replicas_def config_replicated_def
  config_failing_hook_def read_from_master_def ReplicationPool_def new_Pool_def

lemmas acquire_defs = acquire_def run_beforeAcquire_def type_or_default_def useMaster_or_default_def
  select_pool_def pool_acquire_def rethrow_def run_afterAcquire_def connect_and_record_def Let_def

lemmas sharded_fixture_defs = adapter_ok_def world_0_def pool_options_max_def shard_s1_def shard_s2_def config_sharded_def
  read_on_def write_on_def after_write_on_def ShardedReplicationPool_def add_shard_def new_Pool_def

lemmas sharded_acquire_defs = sharded_acquire_def sharded_acquire_0_def sharded_getPool_def
  sharded_getPool_0_def type_or_default_def useMaster_or_default_def pool_acquire_def
  shard_connect_and_record_def Let_def

lemmas pool_op_defs = pool_acquire_def pool_release_def pool_destroy_def pool_destroyAllNow_def
  pool_drain_def connect_and_record_def shard_connect_and_record_def Let_def


subsection \<open>Release and destroy of an unrecognized connection\<close>

text \<open>
  Claim C9. A connection that was never recorded in the ownership registry (the
  \<^verbatim>\<open>WeakMap\<close> of the module) makes \<^verbatim>\<open>release\<close> and \<^verbatim>\<open>destroy\<close> fail with the error
  "Unable to determine to which pool the connection belongs", and the pool object and the
  state around it are returned as they were, so no SubPool counter changes. The same holds
  for the sharded pool and its registry.
\<close>

theorem unrecognized_connection_rejected:
  assumes "owningPools w connection = None"
      and "shardOwningPools w connection = None"
  shows "release ad this connection w =
           (Some (Error ''Unable to determine to which pool the connection belongs''), this, w)
       \<and> destroy ad this connection w =
           (Some (Error ''Unable to determine to which pool the connection belongs''), this, w)
       \<and> sharded_release ad sthis connection w =
           (Some (Error ''Unable to determine to which sharded pool the connection belongs''), sthis, w)
       \<and> sharded_destroy ad sthis connection w =
           (Some (Error ''Unable to determine to which sharded pool the connection belongs''), sthis, w)"
  using assms by (simp add: release_def destroy_def sharded_release_def sharded_destroy_def)

theorem unrecognized_connection_rejected_witness:
  "owningPools world_0 7 = None \<and> shardOwningPools world_0 7 = None
   \<and> release adapter_ok (ReplicationPool config_replicated) 7 world_0 =
       (Some (Error ''Unable to determine to which pool the connection belongs''),
        ReplicationPool config_replicated, world_0)
   \<and> destroy adapter_ok (ReplicationPool config_replicated) 7 world_0 =
       (Some (Error ''Unable to determine to which pool the connection belongs''),
        ReplicationPool config_replicated, world_0)
   \<and> sharded_release adapter_ok (ShardedReplicationPool (config_sharded 1)) 7 world_0 =
       (Some (Error ''Unable to determine to which sharded pool the connection belongs''),
        ShardedReplicationPool (config_sharded 1), world_0)
   \<and> sharded_destroy adapter_ok (ShardedReplicationPool (config_sharded 1)) 7 world_0 =
       (Some (Error ''Unable to determine to which sharded pool the connection belongs''),
        ShardedReplicationPool (config_sharded 1), world_0)"
  using unrecognized_connection_rejected
          [of world_0 7 adapter_ok "ReplicationPool config_replicated"
              "ShardedReplicationPool (config_sharded 1)"]
  by (simp add: world_0_def)

subsection \<open>The selection rule of acquire\<close>

text \<open>Once the options are valid, \<^verbatim>\<open>acquire\<close> is served by the SubPool that \<open>select_pool\<close> gives.\<close>

lemma acquire_served:
  assumes "run_beforeAcquire this options = Inr options2"
      and "type_or_default options2 = ''read'' \<or> type_or_default options2 = ''write''"
      and "acquire ad this options w = (r, this', w')"
      and "select_pool this (type_or_default options2) (useMaster_or_default options2) = (pool, sp)"
  shows "\<exists>sp'. this' = store_pool this pool sp' \<and> served_by ad sp w r sp' w'"
  using assms
  by (auto simp: acquire_def served_by_def Let_def split: prod.splits sum.splits option.splits)

text \<open>
  Claim C3, as amended. \<open>requested\<close> is the options object of the call (empty when the
  argument is missing) and \<open>options2\<close> the object as \<^verbatim>\<open>beforeAcquire\<close> leaves it: \<open>requested\<close>
  itself when the pool has no such hook. Its \<^verbatim>\<open>type\<close> is \<^verbatim>\<open>'read'\<close>, \<^verbatim>\<open>'write'\<close> or missing.
  \<^verbatim>\<open>ReplicationPool.acquire\<close> is served by the read SubPool exactly when the \<^verbatim>\<open>type\<close> of
  \<open>options2\<close> is \<^verbatim>\<open>'read'\<close>, a read SubPool exists and the \<^verbatim>\<open>useMaster\<close> of \<open>options2\<close> is not
  \<^verbatim>\<open>true\<close>, and then the write SubPool is left alone; in every other case it is served by
  the write SubPool and the read SubPool is left alone. The class of dialects/abstract has
  no hooks and applies the rule to the options of the call. So without a hook that changes
  it, \<^verbatim>\<open>useMaster: true\<close> routes to the write SubPool also when a read SubPool exists.
\<close>

theorem acquire_selection_rule:
  assumes "requested = (case options of Some opts \<Rightarrow> opts | None \<Rightarrow> \<lparr>otype = None, useMaster = None\<rparr>)"
      and "case beforeAcquire this of None \<Rightarrow> options2 = requested | Some hook \<Rightarrow> hook requested = Inr options2"
      and "otype options2 = None \<or> otype options2 = Some ''read'' \<or> otype options2 = Some ''write''"
      and "acquire ad this options w = (r, this', w')"
      and "otype options_0 = None \<or> otype options_0 = Some ''read'' \<or> otype options_0 = Some ''write''"
      and "acquire_0 ad this options_0 w = (r_0, this_0', w_0')"
  shows "(if otype options2 = Some ''read'' \<and> rp_read this \<noteq> None \<and> useMaster options2 \<noteq> Some True
          then \<exists>rd rd'. rp_read this = Some rd \<and> rp_read this' = Some rd' \<and> served_by ad rd w r rd' w'
                 \<and> rp_write this' = rp_write this
          else served_by ad (rp_write this) w r (rp_write this') w' \<and> rp_read this' = rp_read this)
       \<and> (if otype options_0 = Some ''read'' \<and> rp_read this \<noteq> None \<and> useMaster options_0 \<noteq> Some True
          then \<exists>rd rd'. rp_read this = Some rd \<and> rp_read this_0' = Some rd' \<and> served_by ad rd w r_0 rd' w_0'
                 \<and> rp_write this_0' = rp_write this
          else served_by ad (rp_write this) w r_0 (rp_write this_0') w_0' \<and> rp_read this_0' = rp_read this)"
proof -
  have run: "run_beforeAcquire this options = Inr options2"
    using assms(1,2) by (auto simp: run_beforeAcquire_def Let_def split: option.splits)
  have ty: "type_or_default options2 = ''read'' \<or> type_or_default options2 = ''write''"
    using assms(3) by (auto simp: type_or_default_def)
  have ty_read: "type_or_default options2 = ''read'' \<longleftrightarrow> otype options2 = Some ''read''"
    using assms(3) by (auto simp: type_or_default_def)
  have um: "\<not> useMaster_or_default options2 \<longleftrightarrow> useMaster options2 \<noteq> Some True"
    by (cases "useMaster options2") (auto simp: useMaster_or_default_def)
  obtain pool sp where sel: "select_pool this (type_or_default options2) (useMaster_or_default options2) = (pool, sp)"
    by (cases "select_pool this (type_or_default options2) (useMaster_or_default options2)")
  from acquire_served[OF run ty assms(4) sel]
  obtain sp' where st: "this' = store_pool this pool sp'" and sv: "served_by ad sp w r sp' w'" by blast
  have "if type_or_default options2 = ''read'' \<and> rp_read this \<noteq> None \<and> \<not> useMaster_or_default options2
          then \<exists>rd rd'. rp_read this = Some rd \<and> rp_read this' = Some rd' \<and> served_by ad rd w r rd' w'
                 \<and> rp_write this' = rp_write this
          else served_by ad (rp_write this) w r (rp_write this') w' \<and> rp_read this' = rp_read this"
    using sel st sv by (auto simp: select_pool_def split: option.splits if_splits)
  then have first: "if otype options2 = Some ''read'' \<and> rp_read this \<noteq> None \<and> useMaster options2 \<noteq> Some True
          then \<exists>rd rd'. rp_read this = Some rd \<and> rp_read this' = Some rd' \<and> served_by ad rd w r rd' w'
                 \<and> rp_write this' = rp_write this
          else served_by ad (rp_write this) w r (rp_write this') w' \<and> rp_read this' = rp_read this"
    by (simp only: ty_read um)
  have ty0: "type_or_default options_0 = ''read'' \<or> type_or_default options_0 = ''write''"
    using assms(5) by (auto simp: type_or_default_def)
  have ty_read0: "type_or_default options_0 = ''read'' \<longleftrightarrow> otype options_0 = Some ''read''"
    using assms(5) by (auto simp: type_or_default_def)
  have um0: "\<not> useMaster_or_default options_0 \<longleftrightarrow> useMaster options_0 \<noteq> Some True"
    by (cases "useMaster options_0") (auto simp: useMaster_or_default_def)
  have "if type_or_default options_0 = ''read'' \<and> rp_read this \<noteq> None \<and> \<not> useMaster_or_default options_0
          then \<exists>rd rd'. rp_read this = Some rd \<and> rp_read this_0' = Some rd' \<and> served_by ad rd w r_0 rd' w_0'
                 \<and> rp_write this_0' = rp_write this
          else served_by ad (rp_write this) w r_0 (rp_write this_0') w_0' \<and> rp_read this_0' = rp_read this"
    using ty0 assms(6)
    by (auto simp: acquire_0_def served_by_def Let_def split: prod.splits sum.splits option.splits if_splits)
  then have second: "if otype options_0 = Some ''read'' \<and> rp_read this \<noteq> None \<and> useMaster options_0 \<noteq> Some True
          then \<exists>rd rd'. rp_read this = Some rd \<and> rp_read this_0' = Some rd' \<and> served_by ad rd w r_0 rd' w_0'
                 \<and> rp_write this_0' = rp_write this
          else served_by ad (rp_write this) w r_0 (rp_write this_0') w_0' \<and> rp_read this_0' = rp_read this"
    by (simp only: ty_read0 um0)
  from first second show ?thesis by blast
qed

text \<open>
  The property at the deployment with two replicas and no hook: a read request is served
  by the read SubPool (connection 0 belongs to it), a read request with \<^verbatim>\<open>useMaster: true\<close>
  by the write SubPool, in both versions of the class.
\<close>

theorem acquire_selection_rule_witness:
  "otype read_request = Some ''read'' \<and> useMaster read_request \<noteq> Some True
   \<and> rp_read (ReplicationPool config_replicated) \<noteq> None
   \<and> (\<exists>rd rd'. rp_read (ReplicationPool config_replicated) = Some rd
        \<and> rp_read (fst (snd (acquire adapter_ok (ReplicationPool config_replicated) (Some read_request) world_0)))
            = Some rd'
        \<and> served_by adapter_ok rd world_0
            (fst (acquire adapter_ok (ReplicationPool config_replicated) (Some read_request) world_0)) rd'
            (snd (snd (acquire adapter_ok (ReplicationPool config_replicated) (Some read_request) world_0)))
        \<and> rp_write (fst (snd (acquire adapter_ok (ReplicationPool config_replicated) (Some read_request) world_0)))
            = rp_write (ReplicationPool config_replicated))
   \<and> (\<exists>rd rd'. rp_read (ReplicationPool config_replicated) = Some rd
        \<and> rp_read (fst (snd (acquire_0 adapter_ok (ReplicationPool config_replicated) read_request world_0)))
            = Some rd'
        \<and> served_by adapter_ok rd world_0
            (fst (acquire_0 adapter_ok (ReplicationPool config_replicated) read_request world_0)) rd'
            (snd (snd (acquire_0 adapter_ok (ReplicationPool config_replicated) read_request world_0)))
        \<and> rp_write (fst (snd (acquire_0 adapter_ok (ReplicationPool config_replicated) read_request world_0)))
            = rp_write (ReplicationPool config_replicated))
   \<and> fst (acquire adapter_ok (ReplicationPool config_replicated) (Some read_request) world_0) = Inr 0
   \<and> owningPools (snd (snd (acquire adapter_ok (ReplicationPool config_replicated) (Some read_request) world_0))) 0
       = Some ''read''
   \<and> fst (acquire_0 adapter_ok (ReplicationPool config_replicated) read_request world_0) = Inr 0
   \<and> owningPools (snd (snd (acquire_0 adapter_ok (ReplicationPool config_replicated) read_request world_0))) 0
       = Some ''read''
   \<and> otype read_from_master = Some ''read'' \<and> useMaster read_from_master = Some True
   \<and> served_by adapter_ok (rp_write (ReplicationPool config_replicated)) world_0
        (fst (acquire adapter_ok (ReplicationPool config_replicated) (Some read_from_master) world_0))
        (rp_write (fst (snd (acquire adapter_ok (ReplicationPool config_replicated) (Some read_from_master) world_0))))
        (snd (snd (acquire adapter_ok (ReplicationPool config_replicated) (Some read_from_master) world_0)))
   \<and> rp_read (fst (snd (acquire adapter_ok (ReplicationPool config_replicated) (Some read_from_master) world_0)))
       = rp_read (ReplicationPool config_replicated)
   \<and> served_by adapter_ok (rp_write (ReplicationPool config_replicated)) world_0
        (fst (acquire_0 adapter_ok (ReplicationPool config_replicated) read_from_master world_0))
        (rp_write (fst (snd (acquire_0 adapter_ok (ReplicationPool config_replicated) read_from_master world_0))))
        (snd (snd (acquire_0 adapter_ok (ReplicationPool config_replicated) read_from_master world_0)))
   \<and> rp_read (fst (snd (acquire_0 adapter_ok (ReplicationPool config_replicated) read_from_master world_0)))
       = rp_read (ReplicationPool config_replicated)
   \<and> fst (acquire adapter_ok (ReplicationPool config_replicated) (Some read_from_master) world_0) = Inr 0
   \<and> owningPools (snd (snd (acquire adapter_ok (ReplicationPool config_replicated) (Some read_from_master) world_0))) 0
       = Some ''write''
   \<and> fst (acquire_0 adapter_ok (ReplicationPool config_replicated) read_from_master world_0) = Inr 0
   \<and> owningPools (snd (snd (acquire_0 adapter_ok (ReplicationPool config_replicated) read_from_master world_0))) 0
       = Some ''write''"
proof -
  let ?P = "ReplicationPool config_replicated"
  let ?A1 = "acquire adapter_ok ?P (Some read_request) world_0"
  let ?B1 = "acquire_0 adapter_ok ?P read_request world_0"
  let ?A2 = "acquire adapter_ok ?P (Some read_from_master) world_0"
  let ?B2 = "acquire_0 adapter_ok ?P read_from_master world_0"
  have r1: "read_request = (case Some read_request of Some opts \<Rightarrow> opts | None \<Rightarrow> \<lparr>otype = None, useMaster = None\<rparr>)"
    by simp
  have r2: "read_from_master = (case Some read_from_master of Some opts \<Rightarrow> opts | None \<Rightarrow> \<lparr>otype = None, useMaster = None\<rparr>)"
    by simp
  have b1: "case beforeAcquire ?P of None \<Rightarrow> read_request = read_request | Some hook \<Rightarrow> hook read_request = Inr read_request"
    by (simp add: ReplicationPool_def config_replicated_def)
  have b2: "case beforeAcquire ?P of None \<Rightarrow> read_from_master = read_from_master
            | Some hook \<Rightarrow> hook read_from_master = Inr read_from_master"
    by (simp add: ReplicationPool_def config_replicated_def)
  have o1: "otype read_request = Some ''read''" by (simp add: read_request_def)
  have u1: "useMaster read_request \<noteq> Some True" by (simp add: read_request_def)
  have o2: "otype read_from_master = Some ''read''" by (simp add: read_from_master_def)
  have u2: "useMaster read_from_master = Some True" by (simp add: read_from_master_def)
  have p: "rp_read ?P \<noteq> None" by (simp add: ReplicationPool_def config_replicated_def replicas_def)
  have v1: "otype read_request = None \<or> otype read_request = Some ''read'' \<or> otype read_request = Some ''write''"
    using o1 by simp
  have v2: "otype read_from_master = None \<or> otype read_from_master = Some ''read''
            \<or> otype read_from_master = Some ''write''"
    using o2 by simp
  have a1: "?A1 = (fst ?A1, fst (snd ?A1), snd (snd ?A1))" by simp
  have a2: "?A2 = (fst ?A2, fst (snd ?A2), snd (snd ?A2))" by simp
  have e1: "?B1 = (fst ?B1, fst (snd ?B1), snd (snd ?B1))" by simp
  have e2: "?B2 = (fst ?B2, fst (snd ?B2), snd (snd ?B2))" by simp
  have c1: "otype read_request = Some ''read'' \<and> rp_read ?P \<noteq> None \<and> useMaster read_request \<noteq> Some True"
    using o1 u1 p by (intro conjI)
  have c2: "\<not> (otype read_from_master = Some ''read'' \<and> rp_read ?P \<noteq> None
                \<and> useMaster read_from_master \<noteq> Some True)"
    using u2 by simp
  note t1 = acquire_selection_rule [OF r1 b1 v1 a1 v1 e1]
  note t2 = acquire_selection_rule [OF r2 b2 v2 a2 v2 e2]
  have s1: "(\<exists>rd rd'. rp_read ?P = Some rd \<and> rp_read (fst (snd ?A1)) = Some rd'
        \<and> served_by adapter_ok rd world_0 (fst ?A1) rd' (snd (snd ?A1))
        \<and> rp_write (fst (snd ?A1)) = rp_write ?P)
     \<and> (\<exists>rd rd'. rp_read ?P = Some rd \<and> rp_read (fst (snd ?B1)) = Some rd'
        \<and> served_by adapter_ok rd world_0 (fst ?B1) rd' (snd (snd ?B1))
        \<and> rp_write (fst (snd ?B1)) = rp_write ?P)"
    using t1 by (simp only: if_P[OF c1])
  have s2: "(served_by adapter_ok (rp_write ?P) world_0 (fst ?A2) (rp_write (fst (snd ?A2))) (snd (snd ?A2))
        \<and> rp_read (fst (snd ?A2)) = rp_read ?P)
     \<and> (served_by adapter_ok (rp_write ?P) world_0 (fst ?B2) (rp_write (fst (snd ?B2))) (snd (snd ?B2))
        \<and> rp_read (fst (snd ?B2)) = rp_read ?P)"
    using t2 by (simp only: if_not_P[OF c2])
  have k1: "fst ?A1 = Inr 0 \<and> owningPools (snd (snd ?A1)) 0 = Some ''read''"
    by (simp add: fixture_defs acquire_defs read_request_def)
  have k2: "fst ?B1 = Inr 0 \<and> owningPools (snd (snd ?B1)) 0 = Some ''read''"
    by (simp add: fixture_defs acquire_defs acquire_0_def read_request_def)
  have k3: "fst ?A2 = Inr 0 \<and> owningPools (snd (snd ?A2)) 0 = Some ''write''"
    by (simp add: fixture_defs acquire_defs)
  have k4: "fst ?B2 = Inr 0 \<and> owningPools (snd (snd ?B2)) 0 = Some ''write''"
    by (simp add: fixture_defs acquire_defs acquire_0_def)
  from o1 u1 p s1 k1 k2 o2 u2 s2 k3 k4 show ?thesis by (simp only: simp_thms)
qed

text \<open>
  Claim C3, as stated, fails. The pool has two replicas and a \<^verbatim>\<open>beforeAcquire\<close> hook that
  assigns \<^verbatim>\<open>type = 'read'\<close> and \<^verbatim>\<open>useMaster = false\<close>. The request has the role \<^verbatim>\<open>'write'\<close> and
  \<^verbatim>\<open>useMaster: true\<close>, and the read SubPool is used: connection 0 is open to the first
  replica, belongs to the read SubPool and is checked out there, and the write SubPool has
  created nothing.
\<close>

theorem hook_rewrites_request_counterexample:
  "otype write_to_master = Some ''write'' \<and> useMaster write_to_master = Some True
   \<and> fst (acquire adapter_ok (ReplicationPool config_hook_to_replicas) (Some write_to_master) world_0) = Inr 0
   \<and> conn_options (snd (snd (acquire adapter_ok (ReplicationPool config_hook_to_replicas)
        (Some write_to_master) world_0))) 0 = Some (backend ''replica-a'')
   \<and> owningPools (snd (snd (acquire adapter_ok (ReplicationPool config_hook_to_replicas)
        (Some write_to_master) world_0))) 0 = Some ''read''
   \<and> using_rp (fst (snd (acquire adapter_ok (ReplicationPool config_hook_to_replicas)
        (Some write_to_master) world_0))) = 1
   \<and> pool_size (rp_write (fst (snd (acquire adapter_ok (ReplicationPool config_hook_to_replicas)
        (Some write_to_master) world_0)))) = 0"
  by (simp add: fixture_defs acquire_defs config_hook_to_replicas_def write_to_master_def
        using_rp_def pool_using_def pool_size_def)

subsection \<open>A rejecting afterAcquire hook\<close>

text \<open>A connection a SubPool hands out is among its checked-out connections.\<close>

lemma pool_acquire_inUse:
  "pool_acquire ad sp w = (Inr c, sp', w') \<Longrightarrow> c \<in> fst ` set (sp_inUse sp')"
  by (auto simp: pool_acquire_def split: if_splits prod.splits option.splits sum.splits)

text \<open>
  Claim C2, as amended. When the \<^verbatim>\<open>afterAcquire\<close> hook rejects with \<open>e\<close>, \<^verbatim>\<open>acquire\<close> fails
  with \<open>e\<close>, and the SubPool is left as its \<^verbatim>\<open>acquire()\<close> left it: nothing releases the
  connection, which stays checked out.
\<close>

theorem afterAcquire_failure_leaves_connection_checked_out:
  assumes "run_beforeAcquire this options = Inr options2"
      and "type_or_default options2 = ''read'' \<or> type_or_default options2 = ''write''"
      and "select_pool this (type_or_default options2) (useMaster_or_default options2) = (pool, sp)"
      and "pool_acquire ad sp w = (Inr connection, sp', w')"
      and "run_afterAcquire this connection options2 = Some e"
  shows "acquire ad this options w = (Inl e, store_pool this pool sp', w')
       \<and> connection \<in> fst ` set (sp_inUse sp')"
  using assms pool_acquire_inUse[OF assms(4)]
  by (auto simp: acquire_def Let_def)

theorem afterAcquire_failure_witness:
  "run_beforeAcquire (ReplicationPool config_failing_hook) None = Inr \<lparr>otype = None, useMaster = None\<rparr>
   \<and> type_or_default \<lparr>otype = None, useMaster = None\<rparr> = ''write''
   \<and> select_pool (ReplicationPool config_failing_hook) ''write'' False
       = (WritePool, rp_write (ReplicationPool config_failing_hook))
   \<and> fst (pool_acquire adapter_ok (rp_write (ReplicationPool config_failing_hook)) world_0) = Inr 0
   \<and> run_afterAcquire (ReplicationPool config_failing_hook) 0 \<lparr>otype = None, useMaster = None\<rparr>
       = Some (Error ''afterAcquire failed'')
   \<and> acquire adapter_ok (ReplicationPool config_failing_hook) None world_0 =
       (Inl (Error ''afterAcquire failed''),
        store_pool (ReplicationPool config_failing_hook) WritePool
          (fst (snd (pool_acquire adapter_ok (rp_write (ReplicationPool config_failing_hook)) world_0))),
        snd (snd (pool_acquire adapter_ok (rp_write (ReplicationPool config_failing_hook)) world_0)))
   \<and> 0 \<in> fst ` set (sp_inUse (fst (snd (pool_acquire adapter_ok (rp_write (ReplicationPool config_failing_hook)) world_0))))"
proof -
  have h1: "run_beforeAcquire (ReplicationPool config_failing_hook) None = Inr \<lparr>otype = None, useMaster = None\<rparr>"
    by (simp add: run_beforeAcquire_def ReplicationPool_def config_failing_hook_def)
  have h2: "type_or_default \<lparr>otype = None, useMaster = None\<rparr> = ''write''"
    by (simp add: type_or_default_def)
  have h2': "useMaster_or_default \<lparr>otype = None, useMaster = None\<rparr> = False"
    by (simp add: useMaster_or_default_def)
  have h3: "select_pool (ReplicationPool config_failing_hook) ''write'' False
       = (WritePool, rp_write (ReplicationPool config_failing_hook))"
    by (simp add: select_pool_def ReplicationPool_def config_failing_hook_def)
  have h4: "fst (pool_acquire adapter_ok (rp_write (ReplicationPool config_failing_hook)) world_0) = Inr 0"
    by (simp add: fixture_defs acquire_defs)
  have h5: "run_afterAcquire (ReplicationPool config_failing_hook) 0 \<lparr>otype = None, useMaster = None\<rparr>
       = Some (Error ''afterAcquire failed'')"
    by (simp add: run_afterAcquire_def ReplicationPool_def config_failing_hook_def)
  have h4': "pool_acquire adapter_ok (rp_write (ReplicationPool config_failing_hook)) world_0 =
      (Inr 0, fst (snd (pool_acquire adapter_ok (rp_write (ReplicationPool config_failing_hook)) world_0)),
       snd (snd (pool_acquire adapter_ok (rp_write (ReplicationPool config_failing_hook)) world_0)))"
    using h4 by (metis prod.collapse)
  show ?thesis
    using afterAcquire_failure_leaves_connection_checked_out
            [of "ReplicationPool config_failing_hook" None "\<lparr>otype = None, useMaster = None\<rparr>"
                WritePool "rp_write (ReplicationPool config_failing_hook)" adapter_ok world_0 0
                "fst (snd (pool_acquire adapter_ok (rp_write (ReplicationPool config_failing_hook)) world_0))"
                "snd (snd (pool_acquire adapter_ok (rp_write (ReplicationPool config_failing_hook)) world_0))"
                "Error ''afterAcquire failed''"]
          h1 h2 h2' h3 h4 h4' h5
    by simp
qed

text \<open>
  Claim C2, as stated, fails: with a hook that rejects, \<^verbatim>\<open>acquire\<close> fails and connection 0
  is still checked out of the write SubPool afterwards.
\<close>

theorem afterAcquire_failure_counterexample:
  "fst (acquire adapter_ok (ReplicationPool config_failing_hook) None world_0) = Inl (Error ''afterAcquire failed'')
   \<and> sp_inUse (rp_write (fst (snd (acquire adapter_ok (ReplicationPool config_failing_hook) None world_0)))) = [(0, 1)]
   \<and> sp_available (rp_write (fst (snd (acquire adapter_ok (ReplicationPool config_failing_hook) None world_0)))) = []
   \<and> using_rp (fst (snd (acquire adapter_ok (ReplicationPool config_failing_hook) None world_0))) = 1"
  by (simp add: fixture_defs acquire_defs using_rp_def pool_using_def)

subsection \<open>A read request on a shard without replicas\<close>

text \<open>
  The constructor stores \<^verbatim>\<open>null\<close> as the read entry of a shard without replicas, and a read
  request on a shard whose read entry is \<^verbatim>\<open>null\<close> is refused, whatever the rest of the pool
  holds.
\<close>

lemma add_shard_without_replicas:
  assumes "sc_readConfig shard = None \<or> sc_readConfig shard = Some []"
  shows "map_of (srp_read (add_shard po shard this)) (sc_shardId shard) = Some None"
  using assms by (auto simp: add_shard_def Let_def update_conv)

lemma read_on_null_entry_refused:
  assumes "map_of (srp_read this) sid = Some None"
      and "otype options = Some ''read''" and "\<not> useMaster_or_default options"
      and "opt_shardId options = sid"
  shows "sharded_acquire ad this options w = (Inl (Error (''No read pool found for shard '' @ sid)), this, w)"
    and "sharded_acquire_0 ad this options w = (Inl (Error (''No read pool found for shard '' @ sid)), this, w)"
  using assms
  by (simp_all add: sharded_acquire_def sharded_acquire_0_def sharded_getPool_def sharded_getPool_0_def
      type_or_default_def)

text \<open>
  Claim C1. The code does not do what the claim says: shard \<open>s1\<close> is configured without
  \<^verbatim>\<open>readConfig\<close>, and a read request on it with \<^verbatim>\<open>useMaster\<close> false is not served by the
  write SubPool of \<open>s1\<close> but fails with "No read pool found for shard s1", in both versions
  of the class.
\<close>

theorem read_without_replicas_fails:
  "sc_readConfig (hd (shards (config_sharded 1))) = None
   \<and> sc_shardId (hd (shards (config_sharded 1))) = ''s1''
   \<and> fst (sharded_acquire_0 adapter_ok (ShardedReplicationPool (config_sharded 1)) (read_on ''s1'') world_0)
       = Inl (Error ''No read pool found for shard s1'')
   \<and> fst (sharded_acquire adapter_ok (ShardedReplicationPool (config_sharded 1)) (read_on ''s1'') world_0)
       = Inl (Error ''No read pool found for shard s1'')"
  by (simp add: sharded_fixture_defs sharded_acquire_defs)

subsection \<open>Timeout errors\<close>

text \<open>
  \<^verbatim>\<open>ReplicationPool.acquire\<close> turns a timeout of the SubPool into an instance of the
  caller's class, with the timeout as its cause.
\<close>

lemma acquire_translates_timeout:
  assumes "run_beforeAcquire this options = Inr options2"
      and "type_or_default options2 = ''read'' \<or> type_or_default options2 = ''write''"
      and "select_pool this (type_or_default options2) (useMaster_or_default options2) = (pool, sp)"
      and "pool_acquire ad sp w = (Inl (TimeoutError m), sp', w')"
      and "timeoutErrorClass this = Some cls"
  shows "acquire ad this options w = (Inl (TimeoutErrorClass cls m (TimeoutError m)), store_pool this pool sp', w')"
  using assms by (auto simp: acquire_def rethrow_def Let_def)

text \<open>
  Claim C4. The sharded pool does not do what the claim says: it is built with a class for
  timeout errors and \<^verbatim>\<open>max = 1\<close>; the first write request on \<open>s1\<close> takes the only
  connection, and the second one fails with the \<^verbatim>\<open>TimeoutError\<close> of the SubPool itself,
  not with an instance of the caller's class.
\<close>

theorem sharded_timeout_not_translated:
  "sharded_cfg_timeoutErrorClass (config_sharded 1) = Some ''ConnectionAcquireTimeoutError''
   \<and> fst (after_write_on ''s1'') = Inr 0
   \<and> fst (sharded_acquire adapter_ok (fst (snd (after_write_on ''s1''))) (write_on ''s1'')
            (snd (snd (after_write_on ''s1''))))
       = Inl (TimeoutError ''Operation timeout'')"
  by (simp add: sharded_fixture_defs sharded_acquire_defs)

subsection \<open>The per-shard getters\<close>

text \<open>
  What the per-shard getters return: the counter of the shard's read SubPool when it has one,
  otherwise the counter of its write SubPool, or 0 for an unknown shard.
\<close>

lemma shardSize_value:
  "shardSize this sid =
     (case map_of (srp_read this) sid of
        Some (Some rd) \<Rightarrow> pool_size rd
      | _ \<Rightarrow> (case map_of (srp_write this) sid of Some wr \<Rightarrow> pool_size wr | None \<Rightarrow> 0))"
  by (simp add: shardSize_def sharded_getPool_def split: option.splits)

text \<open>
  Claim C6. The code does not do what the claim says: after one write request on shard
  \<open>s2\<close>, which has replicas, the read SubPool of \<open>s2\<close> tracks no connection and the write
  SubPool one, and \<^verbatim>\<open>shardSize\<close> and \<^verbatim>\<open>shardUsing\<close> return 0, not the sum 1, in both versions
  of the class.
\<close>

theorem shardSize_is_not_the_sum:
  "fst (after_write_on ''s2'') = Inr 0
   \<and> map_option (map_option pool_size) (map_of (srp_read (fst (snd (after_write_on ''s2'')))) ''s2'') = Some (Some 0)
   \<and> map_option pool_size (map_of (srp_write (fst (snd (after_write_on ''s2'')))) ''s2'') = Some 1
   \<and> shardSize (fst (snd (after_write_on ''s2''))) ''s2'' = 0
   \<and> shardUsing (fst (snd (after_write_on ''s2''))) ''s2'' = 0
   \<and> shardSize_0 (fst (snd (after_write_on ''s2''))) ''s2'' = 0
   \<and> shardUsing_0 (fst (snd (after_write_on ''s2''))) ''s2'' = 0"
  by (simp add: sharded_fixture_defs sharded_acquire_defs shardSize_def shardUsing_def shardSize_0_def
        shardUsing_0_def pool_size_def pool_using_def)

subsection \<open>Release and destroy in the sharded pool\<close>

text \<open>
  A recorded value \<^verbatim>\<open>read:<shardId>\<close> or \<^verbatim>\<open>write:<shardId>\<close> splits back into its type and
  shard id when the shard id has no colon.
\<close>

lemma split_colon_no_colon: "CHR '':'' \<notin> set s \<Longrightarrow> split_colon s = [s]"
  by (induction s) auto

lemma split_colon_prefix:
  "CHR '':'' \<notin> set a \<Longrightarrow> split_colon (a @ CHR '':'' # b) = a # split_colon b"
  by (induction a) auto

lemma shardValueToTuple_recorded:
  assumes "CHR '':'' \<notin> set ty" and "CHR '':'' \<notin> set sid"
  shows "shardValueToTuple (ty @ '':'' @ sid) = (Some sid, ty)"
  using assms by (simp add: shardValueToTuple_def split_colon_prefix split_colon_no_colon)

lemma sharded_getPool_absent:
  assumes "map_of (srp_read this) sid = None" and "map_of (srp_write this) sid = None"
  shows "sharded_getPool this sid ty um = None" and "sharded_getPool_0 this sid ty = None"
  using assms by (simp_all add: sharded_getPool_def sharded_getPool_0_def)

text \<open>
  Claim C7, as amended. \<^verbatim>\<open>release\<close> and \<^verbatim>\<open>destroy\<close> of the sharded pool fail with an error
  for a connection that was never recorded. For a connection recorded under a shard id
  without a colon that is in neither map of the pool, they return normally and change
  nothing.
\<close>

theorem release_destroy_by_recorded_shard:
  "(shardOwningPools w unknown = None \<longrightarrow>
      sharded_release ad this unknown w =
        (Some (Error ''Unable to determine to which sharded pool the connection belongs''), this, w)
      \<and> sharded_destroy ad this unknown w =
        (Some (Error ''Unable to determine to which sharded pool the connection belongs''), this, w)
      \<and> sharded_release_0 ad this unknown w =
        (Some (Error ''Unable to determine to which sharded pool the connection belongs''), this, w)
      \<and> sharded_destroy_0 ad this unknown w =
        (Some (Error ''Unable to determine to which sharded pool the connection belongs''), this, w))
   \<and> (shardOwningPools w connection = Some (ty @ '':'' @ sid)
      \<and> (ty = ''read'' \<or> ty = ''write'')
      \<and> CHR '':'' \<notin> set sid
      \<and> map_of (srp_read this) sid = None
      \<and> map_of (srp_write this) sid = None \<longrightarrow>
      sharded_release ad this connection w = (None, this, w)
      \<and> sharded_destroy ad this connection w = (None, this, w)
      \<and> sharded_release_0 ad this connection w = (None, this, w)
      \<and> sharded_destroy_0 ad this connection w = (None, this, w))"
proof (intro conjI impI)
  assume "shardOwningPools w unknown = None"
  then show "sharded_release ad this unknown w =
        (Some (Error ''Unable to determine to which sharded pool the connection belongs''), this, w)"
    and "sharded_destroy ad this unknown w =
        (Some (Error ''Unable to determine to which sharded pool the connection belongs''), this, w)"
    and "sharded_release_0 ad this unknown w =
        (Some (Error ''Unable to determine to which sharded pool the connection belongs''), this, w)"
    and "sharded_destroy_0 ad this unknown w =
        (Some (Error ''Unable to determine to which sharded pool the connection belongs''), this, w)"
    by (simp_all add: sharded_release_def sharded_destroy_def sharded_release_0_def sharded_destroy_0_def)
next
  assume a: "shardOwningPools w connection = Some (ty @ '':'' @ sid)
      \<and> (ty = ''read'' \<or> ty = ''write'')
      \<and> CHR '':'' \<notin> set sid
      \<and> map_of (srp_read this) sid = None
      \<and> map_of (srp_write this) sid = None"
  then have "CHR '':'' \<notin> set ty" and "CHR '':'' \<notin> set sid" by auto
  then have tup: "shardValueToTuple (ty @ '':'' @ sid) = (Some sid, ty)"
    by (rule shardValueToTuple_recorded)
  have nonempty: "ty @ '':'' @ sid \<noteq> []" by simp
  from a have absent: "sharded_getPool this sid ty False = None" "sharded_getPool_0 this sid ty = None"
    by (simp_all add: sharded_getPool_absent)
  from a tup nonempty absent
  show "sharded_release ad this connection w = (None, this, w)"
    and "sharded_destroy ad this connection w = (None, this, w)"
    and "sharded_release_0 ad this connection w = (None, this, w)"
    and "sharded_destroy_0 ad this connection w = (None, this, w)"
    by (simp_all add: sharded_release_def sharded_destroy_def sharded_release_0_def sharded_destroy_0_def)
qed

text \<open>
  The property at the sharded deployment: connection 7 was never recorded, and connection
  0 is recorded under shard \<open>s1\<close>, which has been removed from the maps.
\<close>

theorem release_destroy_by_recorded_shard_witness:
  "shardOwningPools (snd (snd (after_write_on ''s1''))) 7 = None
   \<and> shardOwningPools (snd (snd (after_write_on ''s1''))) 0 = Some (''write'' @ '':'' @ ''s1'')
   \<and> CHR '':'' \<notin> set ''s1''
   \<and> map_of (srp_read (without_shard ''s1'' (fst (snd (after_write_on ''s1''))))) ''s1'' = None
   \<and> map_of (srp_write (without_shard ''s1'' (fst (snd (after_write_on ''s1''))))) ''s1'' = None
   \<and> sharded_release adapter_ok (fst (snd (after_write_on ''s1''))) 7
        (snd (snd (after_write_on ''s1''))) =
       (Some (Error ''Unable to determine to which sharded pool the connection belongs''),
        fst (snd (after_write_on ''s1'')), snd (snd (after_write_on ''s1'')))
   \<and> sharded_destroy adapter_ok (fst (snd (after_write_on ''s1''))) 7
        (snd (snd (after_write_on ''s1''))) =
       (Some (Error ''Unable to determine to which sharded pool the connection belongs''),
        fst (snd (after_write_on ''s1'')), snd (snd (after_write_on ''s1'')))
   \<and> sharded_release adapter_ok (without_shard ''s1'' (fst (snd (after_write_on ''s1'')))) 0
        (snd (snd (after_write_on ''s1''))) =
       (None, without_shard ''s1'' (fst (snd (after_write_on ''s1''))), snd (snd (after_write_on ''s1'')))
   \<and> sharded_destroy adapter_ok (without_shard ''s1'' (fst (snd (after_write_on ''s1'')))) 0
        (snd (snd (after_write_on ''s1''))) =
       (None, without_shard ''s1'' (fst (snd (after_write_on ''s1''))), snd (snd (after_write_on ''s1'')))"
proof -
  let ?w = "snd (snd (after_write_on ''s1''))"
  let ?p = "fst (snd (after_write_on ''s1''))"
  have h1: "shardOwningPools ?w 7 = None"
    by (simp add: sharded_fixture_defs sharded_acquire_defs)
  have h2: "shardOwningPools ?w 0 = Some (''write'' @ '':'' @ ''s1'')"
    by (simp add: sharded_fixture_defs sharded_acquire_defs)
  have h3: "''write'' = ''read'' \<or> ''write'' = ''write''" by simp
  have h4: "CHR '':'' \<notin> set ''s1''" by simp
  have h5: "map_of (srp_read (without_shard ''s1'' ?p)) ''s1'' = None"
    by (simp add: sharded_fixture_defs sharded_acquire_defs without_shard_def)
  have h6: "map_of (srp_write (without_shard ''s1'' ?p)) ''s1'' = None"
    by (simp add: sharded_fixture_defs sharded_acquire_defs without_shard_def)
  note t1 = release_destroy_by_recorded_shard
    [where w = ?w and unknown = 7 and ad = adapter_ok and this = ?p, THEN conjunct1, rule_format, OF h1]
  note t2 = release_destroy_by_recorded_shard
    [where w = ?w and connection = 0 and ad = adapter_ok and this = "without_shard ''s1'' ?p"
       and ty = "''write''" and sid = "''s1''", THEN conjunct2, rule_format, OF conjI [OF h2 conjI [OF h3 conjI [OF h4 conjI [OF h5 h6]]]]]
  from t1 t2 h1 h2 h4 h5 h6 show ?thesis by blast
qed

text \<open>
  Claim C7, as stated, fails: connection 0 is recorded under shard \<open>s1\<close>; once \<open>s1\<close> is gone
  from the maps, \<^verbatim>\<open>release\<close> and \<^verbatim>\<open>destroy\<close> of it return without an error, and so do those
  of another sharded pool, which never had a shard \<open>s1\<close>.
\<close>

theorem release_after_shard_removed_counterexample:
  "shardOwningPools (snd (snd (after_write_on ''s1''))) 0 = Some ''write:s1''
   \<and> map_of (srp_write (without_shard ''s1'' (fst (snd (after_write_on ''s1''))))) ''s1'' = None
   \<and> fst (sharded_release adapter_ok (without_shard ''s1'' (fst (snd (after_write_on ''s1'')))) 0
            (snd (snd (after_write_on ''s1'')))) = None
   \<and> fst (sharded_destroy adapter_ok (without_shard ''s1'' (fst (snd (after_write_on ''s1'')))) 0
            (snd (snd (after_write_on ''s1'')))) = None
   \<and> fst (sharded_release_0 adapter_ok (without_shard ''s1'' (fst (snd (after_write_on ''s1'')))) 0
            (snd (snd (after_write_on ''s1'')))) = None
   \<and> fst (sharded_destroy_0 adapter_ok (without_shard ''s1'' (fst (snd (after_write_on ''s1'')))) 0
            (snd (snd (after_write_on ''s1'')))) = None
   \<and> map_of (srp_write (ShardedReplicationPool config_other_shard)) ''s1'' = None
   \<and> fst (sharded_release adapter_ok (ShardedReplicationPool config_other_shard) 0
            (snd (snd (after_write_on ''s1'')))) = None
   \<and> fst (sharded_destroy adapter_ok (ShardedReplicationPool config_other_shard) 0
            (snd (snd (after_write_on ''s1'')))) = None"
  by (simp add: sharded_fixture_defs sharded_acquire_defs without_shard_def sharded_release_def
        sharded_destroy_def sharded_release_0_def sharded_destroy_0_def shardValueToTuple_def
        config_other_shard_def)

subsection \<open>Round-robin creation of read connections\<close>

text \<open>What the operations of a SubPool leave alone, and what one run of a closure does.\<close>

lemma take_valid_frame:
  "take_valid ad idle w = (found, rest, w') \<Longrightarrow>
     connect_log w' = connect_log w \<and> options_heap w' = options_heap w \<and> next_conn w' = next_conn w
     \<and> owningPools w' = owningPools w \<and> shardOwningPools w' = shardOwningPools w"
  by (induction ad idle w rule: take_valid.induct) (auto split: if_splits)

lemma run_create_ReadCreate:
  "run_create ad (ReadCreate rc n) w = (r, cl, w') \<Longrightarrow>
     cl = ReadCreate rc (Suc n) \<and> connect_log w' = connect_log w @ [rc ! (n mod length rc)]
     \<and> options_heap w' = options_heap w"
  by (auto simp: connect_and_record_def Let_def split: prod.splits option.splits)

lemma run_create_ShardReadCreate:
  "run_create ad (ShardReadCreate rc n sid) w = (r, cl, w') \<Longrightarrow>
     cl = ShardReadCreate rc (Suc n) sid
     \<and> options_heap w' = (options_heap w)(rc ! (n mod length rc) := (options_heap w (rc ! (n mod length rc)))\<lparr>shardId := Some sid\<rparr>)
     \<and> connect_log w' = connect_log w @ [(options_heap w (rc ! (n mod length rc)))\<lparr>shardId := Some sid\<rparr>]"
  by (auto simp: shard_connect_and_record_def Let_def split: prod.splits option.splits)

lemma run_create_ShardWriteCreate:
  "run_create ad (ShardWriteCreate a sid) w = (r, cl, w') \<Longrightarrow>
     cl = ShardWriteCreate a sid
     \<and> options_heap w' = (options_heap w)(a := (options_heap w a)\<lparr>shardId := Some sid\<rparr>)
     \<and> connect_log w' = connect_log w @ [(options_heap w a)\<lparr>shardId := Some sid\<rparr>]"
  by (auto simp: shard_connect_and_record_def Let_def split: prod.splits option.splits)

text \<open>
  One operation of a SubPool leaves the closure, the log and the options objects as they
  are, or runs the closure once.
\<close>

lemma pool_acquire_create:
  assumes "pool_acquire ad sp w = (r, sp', w')"
  shows "(sp_create sp' = sp_create sp \<and> connect_log w' = connect_log w \<and> options_heap w' = options_heap w)
       \<or> (\<exists>w1 r1. connect_log w1 = connect_log w \<and> options_heap w1 = options_heap w
              \<and> run_create ad (sp_create sp) w1 = (r1, sp_create sp', w'))"
proof (cases "sp_closed sp")
  case True
  with assms show ?thesis by (simp add: pool_acquire_def)
next
  case False
  obtain found rest w1 where tv: "take_valid ad (sp_available sp) w = (found, rest, w1)"
    by (cases "take_valid ad (sp_available sp) w") auto
  note fr = take_valid_frame[OF tv]
  show ?thesis
  proof (cases found)
    case (Some cu)
    with assms False tv fr show ?thesis
      by (auto simp: pool_acquire_def split: prod.splits)
  next
    case None
    show ?thesis
    proof (cases "length (sp_inUse sp) < sp_max sp")
      case lt: True
      obtain r1 cl w2 where rc: "run_create ad (sp_create sp) w1 = (r1, cl, w2)"
        by (cases "run_create ad (sp_create sp) w1") auto
      with assms False tv None lt have "sp_create sp' = cl" "w' = w2"
        by (auto simp: pool_acquire_def split: sum.splits)
      with rc fr show ?thesis by blast
    next
      case ge: False
      with assms \<open>\<not> sp_closed sp\<close> tv None fr show ?thesis
        by (auto simp: pool_acquire_def)
    qed
  qed
qed

lemma run_op_create:
  assumes "run_op ad x sp w = (sp', w')"
  shows "(sp_create sp' = sp_create sp \<and> connect_log w' = connect_log w \<and> options_heap w' = options_heap w)
       \<or> (\<exists>w1 r1. connect_log w1 = connect_log w \<and> options_heap w1 = options_heap w
              \<and> run_create ad (sp_create sp) w1 = (r1, sp_create sp', w'))"
proof (cases x)
  case Acquire
  with assms have "pool_acquire ad sp w = (fst (pool_acquire ad sp w), sp', w')"
    by (metis prod.collapse run_op.simps(1))
  then show ?thesis by (rule pool_acquire_create)
next
  case (Release c)
  with assms show ?thesis
    by (auto simp: pool_release_def Let_def split: option.splits if_splits)
next
  case (Destroy c)
  with assms show ?thesis by (auto simp: pool_destroy_def)
next
  case DestroyAllNow
  with assms show ?thesis by (auto simp: pool_destroyAllNow_def Let_def)
next
  case Drain
  with assms show ?thesis by (auto simp: pool_drain_def split: if_splits)
qed

lemma round_robin_block:
  assumes "rc \<noteq> []"
  shows "map (\<lambda>N. f (rc ! (N mod length rc))) [length rc * n..<length rc * n + length rc] = map f rc"
proof -
  have "[length rc * n..<length rc * n + length rc] = map (\<lambda>i. i + length rc * n) [0..<length rc]"
    by (simp only: map_add_upt add.commute)
  then have "map (\<lambda>N. f (rc ! (N mod length rc))) [length rc * n..<length rc * n + length rc]
      = map (\<lambda>i. f (rc ! ((i + length rc * n) mod length rc))) [0..<length rc]"
    by (simp only: map_map comp_def)
  also have "\<dots> = map (\<lambda>i. f (rc ! i)) [0..<length rc]"
    by (rule map_cong) auto
  also have "\<dots> = map f (map (\<lambda>i. rc ! i) [0..<length rc])"
    by (simp only: map_map comp_def)
  also have "\<dots> = map f rc"
    by (simp only: map_nth)
  finally show ?thesis .
qed

lemma round_robin_cycle:
  assumes "rc \<noteq> []"
  shows "map (\<lambda>N. f (rc ! (N mod length rc))) [0..<length rc * n] = concat (replicate n (map f rc))"
proof (induction n)
  case 0
  show ?case by simp
next
  case (Suc n)
  have "length rc * Suc n = length rc * n + length rc" by simp
  then have "[0..<length rc * Suc n] = [0..<length rc * n] @ [length rc * n..<length rc * n + length rc]"
    by (simp only: upt_add_eq_append [OF le0])
  then have "map (\<lambda>N. f (rc ! (N mod length rc))) [0..<length rc * Suc n]
      = map (\<lambda>N. f (rc ! (N mod length rc))) [0..<length rc * n]
        @ map (\<lambda>N. f (rc ! (N mod length rc))) [length rc * n..<length rc * n + length rc]"
    by (simp only: map_append)
  also have "\<dots> = concat (replicate n (map f rc)) @ map f rc"
    by (simp only: Suc.IH round_robin_block[OF assms])
  also have "\<dots> = concat (replicate n (map f rc) @ [map f rc])"
    by simp
  also have "replicate n (map f rc) @ [map f rc] = replicate (Suc n) (map f rc)"
    by (simp only: replicate_append_same replicate_Suc)
  finally show ?case .
qed

lemma take_round_robin:
  assumes "rc \<noteq> []" and "length rc * n \<le> k"
  shows "take (length rc * n) (drop (length xs) (xs @ map (\<lambda>N. f (rc ! (N mod length rc))) [0..<k]))
         = concat (replicate n (map f rc))"
proof -
  have "take (length rc * n) [0..<k] = [0..<length rc * n]"
    using assms(2) by (simp add: take_upt)
  then have "take (length rc * n) (map (\<lambda>N. f (rc ! (N mod length rc))) [0..<k])
      = map (\<lambda>N. f (rc ! (N mod length rc))) [0..<length rc * n]"
    by (simp only: take_map)
  moreover have "drop (length xs) (xs @ map (\<lambda>N. f (rc ! (N mod length rc))) [0..<k])
      = map (\<lambda>N. f (rc ! (N mod length rc))) [0..<k]"
    by simp
  ultimately show ?thesis by (simp only: round_robin_cycle[OF assms(1)])
qed

lemma take_round_robin_id:
  assumes "rc \<noteq> []" and "length rc * n \<le> k"
  shows "take (length rc * n) (drop (length xs) (xs @ map (\<lambda>N. rc ! (N mod length rc)) [0..<k]))
         = concat (replicate n rc)"
  using take_round_robin[OF assms, of xs "\<lambda>x. x"] by (simp only: list.map_ident)

lemma run_ops_ReadCreate:
  assumes "run_ops ad xs sp w = (sp', w')" and "sp_create sp = ReadCreate rc n"
  shows "\<exists>k. sp_create sp' = ReadCreate rc (n + k)
           \<and> connect_log w' = connect_log w @ map (\<lambda>N. rc ! (N mod length rc)) [n..<n + k]"
  using assms
proof (induction xs arbitrary: sp w n)
  case Nil
  then have "sp_create sp' = ReadCreate rc (n + 0) \<and> connect_log w' = connect_log w @ map (\<lambda>N. rc ! (N mod length rc)) [n..<n + 0]"
    by simp
  then show ?case by blast
next
  case (Cons x xs)
  obtain sp1 w1 where step: "run_op ad x sp w = (sp1, w1)" by (cases "run_op ad x sp w") auto
  with Cons.prems have rest: "run_ops ad xs sp1 w1 = (sp', w')" by simp
  from run_op_create[OF step]
  consider (same) "sp_create sp1 = sp_create sp" "connect_log w1 = connect_log w"
    | (created) w0 r0 where "connect_log w0 = connect_log w" "run_create ad (sp_create sp) w0 = (r0, sp_create sp1, w1)"
    by blast
  then show ?case
  proof cases
    case same
    with Cons.IH[OF rest, of n] Cons.prems(2) show ?thesis by simp
  next
    case created
    with Cons.prems(2) run_create_ReadCreate[of ad rc n w0 r0 "sp_create sp1" w1]
    have c: "sp_create sp1 = ReadCreate rc (Suc n)"
      and l: "connect_log w1 = connect_log w @ [rc ! (n mod length rc)]" by auto
    from Cons.IH[OF rest c] obtain k where
      k: "sp_create sp' = ReadCreate rc (Suc n + k)"
         "connect_log w' = connect_log w1 @ map (\<lambda>N. rc ! (N mod length rc)) [Suc n..<Suc n + k]"
      by blast
    have "[n..<n + Suc k] = n # [Suc n..<Suc n + k]" by (simp add: upt_rec)
    with k l have "sp_create sp' = ReadCreate rc (n + Suc k)
        \<and> connect_log w' = connect_log w @ map (\<lambda>N. rc ! (N mod length rc)) [n..<n + Suc k]"
      by simp
    then show ?thesis by blast
  qed
qed

lemma run_ops_ShardReadCreate:
  assumes "run_ops ad xs sp wc = (sp', w')" and "sp_create sp = ShardReadCreate rc n sid"
      and "\<And>a. (options_heap wc a)\<lparr>shardId := Some sid\<rparr> = (options_heap w a)\<lparr>shardId := Some sid\<rparr>"
  shows "\<exists>k. sp_create sp' = ShardReadCreate rc (n + k) sid
           \<and> connect_log w' = connect_log wc @
                 map (\<lambda>N. (options_heap w (rc ! (N mod length rc)))\<lparr>shardId := Some sid\<rparr>) [n..<n + k]"
  using assms
proof (induction xs arbitrary: sp wc n)
  case Nil
  then have "sp_create sp' = ShardReadCreate rc (n + 0) sid
     \<and> connect_log w' = connect_log wc @ map (\<lambda>N. (options_heap w (rc ! (N mod length rc)))\<lparr>shardId := Some sid\<rparr>) [n..<n + 0]"
    by simp
  then show ?case by blast
next
  case (Cons x xs)
  obtain sp1 w1 where step: "run_op ad x sp wc = (sp1, w1)" by (cases "run_op ad x sp wc") auto
  with Cons.prems have rest: "run_ops ad xs sp1 w1 = (sp', w')" by simp
  from run_op_create[OF step]
  consider (same) "sp_create sp1 = sp_create sp" "connect_log w1 = connect_log wc" "options_heap w1 = options_heap wc"
    | (created) w0 r0 where "connect_log w0 = connect_log wc" "options_heap w0 = options_heap wc"
        "run_create ad (sp_create sp) w0 = (r0, sp_create sp1, w1)"
    by blast
  then show ?case
  proof cases
    case same
    with Cons.IH[OF rest, of n] Cons.prems(2,3) show ?thesis by simp
  next
    case created
    with Cons.prems(2) run_create_ShardReadCreate[of ad rc n sid w0 r0 "sp_create sp1" w1]
    have c: "sp_create sp1 = ShardReadCreate rc (Suc n) sid"
      and h: "options_heap w1 = (options_heap wc)(rc ! (n mod length rc) := (options_heap wc (rc ! (n mod length rc)))\<lparr>shardId := Some sid\<rparr>)"
      and l: "connect_log w1 = connect_log wc @ [(options_heap wc (rc ! (n mod length rc)))\<lparr>shardId := Some sid\<rparr>]"
      by auto
    have inv: "\<And>a. (options_heap w1 a)\<lparr>shardId := Some sid\<rparr> = (options_heap w a)\<lparr>shardId := Some sid\<rparr>"
      using h Cons.prems(3) by simp
    from Cons.IH[OF rest c inv] obtain k where
      k: "sp_create sp' = ShardReadCreate rc (Suc n + k) sid"
         "connect_log w' = connect_log w1 @
             map (\<lambda>N. (options_heap w (rc ! (N mod length rc)))\<lparr>shardId := Some sid\<rparr>) [Suc n..<Suc n + k]"
      by blast
    have "[n..<n + Suc k] = n # [Suc n..<Suc n + k]" by (simp add: upt_rec)
    with k l Cons.prems(3) have "sp_create sp' = ShardReadCreate rc (n + Suc k) sid
        \<and> connect_log w' = connect_log wc @
             map (\<lambda>N. (options_heap w (rc ! (N mod length rc)))\<lparr>shardId := Some sid\<rparr>) [n..<n + Suc k]"
      by simp
    then show ?thesis by blast
  qed
qed

lemma add_shard_read_pool:
  assumes "sc_readConfig shard = Some addrs" and "addrs \<noteq> []"
  shows "map_of (srp_read (add_shard po shard this)) (sc_shardId shard)
         = Some (Some (new_Pool po (ShardReadCreate addrs 0 (sc_shardId shard))))"
  using assms by (simp add: add_shard_def Let_def update_conv)

text \<open>
  The same for the connections: an operation of a SubPool changes the state outside the
  pool only by \<^verbatim>\<open>disconnect\<close> calls and by at most one run of the closure, and with an
  adapter whose \<^verbatim>\<open>connect\<close> never rejects each run of a read closure makes one connection.
\<close>

lemma take_valid_only_disconnects:
  "take_valid ad idle w = (found, rest, w') \<Longrightarrow> w' = w\<lparr>disconnect_log := disconnect_log w'\<rparr>"
  by (induction ad idle w rule: take_valid.induct) (auto split: if_splits)

lemma pool_acquire_only_creates:
  assumes "pool_acquire ad sp w = (r, sp', w')"
  shows "(sp_create sp' = sp_create sp \<and> w' = w\<lparr>disconnect_log := disconnect_log w'\<rparr>)
       \<or> (\<exists>w1 r1. w1 = w\<lparr>disconnect_log := disconnect_log w1\<rparr>
              \<and> run_create ad (sp_create sp) w1 = (r1, sp_create sp', w'))"
proof (cases "sp_closed sp")
  case True
  with assms show ?thesis by (simp add: pool_acquire_def)
next
  case False
  obtain found rest w1 where tv: "take_valid ad (sp_available sp) w = (found, rest, w1)"
    by (cases "take_valid ad (sp_available sp) w") auto
  note fr = take_valid_only_disconnects[OF tv]
  show ?thesis
  proof (cases found)
    case (Some cu)
    with assms False tv fr show ?thesis
      by (auto simp: pool_acquire_def split: prod.splits)
  next
    case None
    show ?thesis
    proof (cases "length (sp_inUse sp) < sp_max sp")
      case lt: True
      obtain r1 cl w2 where rc: "run_create ad (sp_create sp) w1 = (r1, cl, w2)"
        by (cases "run_create ad (sp_create sp) w1") auto
      with assms False tv None lt have "sp_create sp' = cl" "w' = w2"
        by (auto simp: pool_acquire_def split: sum.splits)
      with rc fr show ?thesis by blast
    next
      case ge: False
      with assms \<open>\<not> sp_closed sp\<close> tv None fr show ?thesis
        by (auto simp: pool_acquire_def)
    qed
  qed
qed

lemma run_op_only_creates:
  assumes "run_op ad x sp w = (sp', w')"
  shows "(sp_create sp' = sp_create sp \<and> w' = w\<lparr>disconnect_log := disconnect_log w'\<rparr>)
       \<or> (\<exists>w1 r1. w1 = w\<lparr>disconnect_log := disconnect_log w1\<rparr>
              \<and> run_create ad (sp_create sp) w1 = (r1, sp_create sp', w'))"
proof (cases x)
  case Acquire
  with assms have "pool_acquire ad sp w = (fst (pool_acquire ad sp w), sp', w')"
    by (metis prod.collapse run_op.simps(1))
  then show ?thesis by (rule pool_acquire_only_creates)
next
  case (Release c)
  with assms show ?thesis
    by (auto simp: pool_release_def Let_def split: option.splits if_splits)
next
  case (Destroy c)
  with assms show ?thesis by (auto simp: pool_destroy_def)
next
  case DestroyAllNow
  with assms show ?thesis by (auto simp: pool_destroyAllNow_def Let_def)
next
  case Drain
  with assms show ?thesis by (auto simp: pool_drain_def split: if_splits)
qed

lemma run_create_ReadCreate_conn:
  assumes "run_create ad (ReadCreate rc n) w1 = (r, cl, w')"
      and "\<forall>m opts. connect ad m opts = None"
      and "w1 = w\<lparr>disconnect_log := disconnect_log w1\<rparr>"
  shows "cl = ReadCreate rc (Suc n) \<and> next_conn w' = Suc (next_conn w)
       \<and> conn_options w' = (conn_options w)(next_conn w \<mapsto> rc ! (n mod length rc))
       \<and> owningPools w' = (owningPools w)(next_conn w \<mapsto> ''read'')"
proof -
  from assms(3) have "next_conn w1 = next_conn w" "conn_options w1 = conn_options w"
    "owningPools w1 = owningPools w"
    by (metis world.select_convs world.surjective world.update_convs)+
  with assms(1,2) show ?thesis
    by (auto simp: connect_and_record_def Let_def split: prod.splits option.splits)
qed

lemma run_ops_ReadCreate_conns:
  assumes "run_ops ad xs sp w = (sp', w')" and "sp_create sp = ReadCreate rc n"
      and "\<forall>m opts. connect ad m opts = None"
  shows "\<exists>k. sp_create sp' = ReadCreate rc (n + k) \<and> next_conn w' = next_conn w + k
           \<and> (\<forall>c<next_conn w. conn_options w' c = conn_options w c \<and> owningPools w' c = owningPools w c)
           \<and> (\<forall>j<k. conn_options w' (next_conn w + j) = Some (rc ! ((n + j) mod length rc))
                    \<and> owningPools w' (next_conn w + j) = Some ''read'')"
  using assms(1,2)
proof (induction xs arbitrary: sp w n)
  case Nil
  then have "sp_create sp' = ReadCreate rc (n + 0) \<and> next_conn w' = next_conn w + 0
           \<and> (\<forall>c<next_conn w. conn_options w' c = conn_options w c \<and> owningPools w' c = owningPools w c)
           \<and> (\<forall>j<0. conn_options w' (next_conn w + j) = Some (rc ! ((n + j) mod length rc))
                    \<and> owningPools w' (next_conn w + j) = Some ''read'')"
    by simp
  then show ?case by blast
next
  case (Cons x xs)
  obtain sp1 w1 where step: "run_op ad x sp w = (sp1, w1)" by (cases "run_op ad x sp w") auto
  with Cons.prems have rest: "run_ops ad xs sp1 w1 = (sp', w')" by simp
  from run_op_only_creates[OF step]
  consider (same) "sp_create sp1 = sp_create sp" "w1 = w\<lparr>disconnect_log := disconnect_log w1\<rparr>"
    | (created) w0 r0 where "w0 = w\<lparr>disconnect_log := disconnect_log w0\<rparr>"
        "run_create ad (sp_create sp) w0 = (r0, sp_create sp1, w1)"
    by blast
  then show ?case
  proof cases
    case same
    from same(2) have e: "next_conn w1 = next_conn w" "conn_options w1 = conn_options w"
      "owningPools w1 = owningPools w"
      by (metis world.select_convs world.surjective world.update_convs)+
    from same(1) Cons.prems(2) have c: "sp_create sp1 = ReadCreate rc n" by simp
    from Cons.IH[OF rest c] e show ?thesis by simp
  next
    case created
    from created(2) Cons.prems(2) have rc: "run_create ad (ReadCreate rc n) w0 = (r0, sp_create sp1, w1)"
      by simp
    from run_create_ReadCreate_conn[OF rc assms(3) created(1)]
    have c: "sp_create sp1 = ReadCreate rc (Suc n)"
      and nx: "next_conn w1 = Suc (next_conn w)"
      and co: "conn_options w1 = (conn_options w)(next_conn w \<mapsto> rc ! (n mod length rc))"
      and ow: "owningPools w1 = (owningPools w)(next_conn w \<mapsto> ''read'')"
      by blast+
    from Cons.IH[OF rest c] obtain k where
      k1: "sp_create sp' = ReadCreate rc (Suc n + k)"
      and k2: "next_conn w' = next_conn w1 + k"
      and k3: "\<forall>c<next_conn w1. conn_options w' c = conn_options w1 c \<and> owningPools w' c = owningPools w1 c"
      and k4: "\<forall>j<k. conn_options w' (next_conn w1 + j) = Some (rc ! ((Suc n + j) mod length rc))
                    \<and> owningPools w' (next_conn w1 + j) = Some ''read''"
      by blast
    have a1: "sp_create sp' = ReadCreate rc (n + Suc k)" using k1 by simp
    have a2: "next_conn w' = next_conn w + Suc k" using k2 nx by simp
    have a3: "\<forall>c<next_conn w. conn_options w' c = conn_options w c \<and> owningPools w' c = owningPools w c"
      using k3 nx co ow by simp
    have a4: "conn_options w' (next_conn w + j) = Some (rc ! ((n + j) mod length rc))
                    \<and> owningPools w' (next_conn w + j) = Some ''read''" if "j < Suc k" for j
    proof (cases j)
      case 0
      with k3 nx co ow show ?thesis by simp
    next
      case (Suc i)
      with that have "i < k" by simp
      with k4 nx Suc show ?thesis by simp
    qed
    from a1 a2 a3 a4 show ?thesis by blast
  qed
qed

lemma run_create_ShardReadCreate_conn:
  assumes "run_create ad (ShardReadCreate rc n sid) w1 = (r, cl, w')"
      and "\<forall>m opts. connect ad m opts = None"
      and "w1 = w\<lparr>disconnect_log := disconnect_log w1\<rparr>"
  shows "cl = ShardReadCreate rc (Suc n) sid \<and> next_conn w' = Suc (next_conn w)
       \<and> options_heap w' = (options_heap w)(rc ! (n mod length rc) := (options_heap w (rc ! (n mod length rc)))\<lparr>shardId := Some sid\<rparr>)
       \<and> conn_options w' = (conn_options w)(next_conn w \<mapsto> (options_heap w (rc ! (n mod length rc)))\<lparr>shardId := Some sid\<rparr>)
       \<and> shardOwningPools w' = (shardOwningPools w)(next_conn w \<mapsto> ''read:'' @ sid)"
proof -
  from assms(3) have "next_conn w1 = next_conn w" "conn_options w1 = conn_options w"
    "shardOwningPools w1 = shardOwningPools w" "options_heap w1 = options_heap w"
    by (metis world.select_convs world.surjective world.update_convs)+
  with assms(1,2) show ?thesis
    by (auto simp: shard_connect_and_record_def Let_def split: prod.splits option.splits)
qed

lemma run_ops_ShardReadCreate_conns:
  assumes "run_ops ad xs sp wc = (sp', w')" and "sp_create sp = ShardReadCreate rc n sid"
      and "\<And>a. (options_heap wc a)\<lparr>shardId := Some sid\<rparr> = (options_heap w a)\<lparr>shardId := Some sid\<rparr>"
      and "\<forall>m opts. connect ad m opts = None"
  shows "\<exists>k. sp_create sp' = ShardReadCreate rc (n + k) sid \<and> next_conn w' = next_conn wc + k
           \<and> (\<forall>c<next_conn wc. conn_options w' c = conn_options wc c
                  \<and> shardOwningPools w' c = shardOwningPools wc c)
           \<and> (\<forall>j<k. conn_options w' (next_conn wc + j)
                        = Some ((options_heap w (rc ! ((n + j) mod length rc)))\<lparr>shardId := Some sid\<rparr>)
                    \<and> shardOwningPools w' (next_conn wc + j) = Some (''read:'' @ sid))"
  using assms(1,2,3)
proof (induction xs arbitrary: sp wc n)
  case Nil
  then have "sp_create sp' = ShardReadCreate rc (n + 0) sid \<and> next_conn w' = next_conn wc + 0
           \<and> (\<forall>c<next_conn wc. conn_options w' c = conn_options wc c
                  \<and> shardOwningPools w' c = shardOwningPools wc c)
           \<and> (\<forall>j<0. conn_options w' (next_conn wc + j)
                        = Some ((options_heap w (rc ! ((n + j) mod length rc)))\<lparr>shardId := Some sid\<rparr>)
                    \<and> shardOwningPools w' (next_conn wc + j) = Some (''read:'' @ sid))"
    by simp
  then show ?case by blast
next
  case (Cons x xs)
  obtain sp1 w1 where step: "run_op ad x sp wc = (sp1, w1)" by (cases "run_op ad x sp wc") auto
  with Cons.prems have rest: "run_ops ad xs sp1 w1 = (sp', w')" by simp
  from run_op_only_creates[OF step]
  consider (same) "sp_create sp1 = sp_create sp" "w1 = wc\<lparr>disconnect_log := disconnect_log w1\<rparr>"
    | (created) w0 r0 where "w0 = wc\<lparr>disconnect_log := disconnect_log w0\<rparr>"
        "run_create ad (sp_create sp) w0 = (r0, sp_create sp1, w1)"
    by blast
  then show ?case
  proof cases
    case same
    from same(2) have e: "next_conn w1 = next_conn wc" "conn_options w1 = conn_options wc"
      "shardOwningPools w1 = shardOwningPools wc" "options_heap w1 = options_heap wc"
      by (metis world.select_convs world.surjective world.update_convs)+
    from same(1) Cons.prems(2) have c: "sp_create sp1 = ShardReadCreate rc n sid" by simp
    have inv: "\<And>a. (options_heap w1 a)\<lparr>shardId := Some sid\<rparr> = (options_heap w a)\<lparr>shardId := Some sid\<rparr>"
      using e(4) Cons.prems(3) by simp
    from Cons.IH[OF rest c inv] e show ?thesis by simp
  next
    case created
    from created(2) Cons.prems(2)
    have rc: "run_create ad (ShardReadCreate rc n sid) w0 = (r0, sp_create sp1, w1)"
      by simp
    from run_create_ShardReadCreate_conn[OF rc assms(4) created(1)]
    have c: "sp_create sp1 = ShardReadCreate rc (Suc n) sid"
      and nx: "next_conn w1 = Suc (next_conn wc)"
      and h: "options_heap w1 = (options_heap wc)(rc ! (n mod length rc) := (options_heap wc (rc ! (n mod length rc)))\<lparr>shardId := Some sid\<rparr>)"
      and co: "conn_options w1 = (conn_options wc)(next_conn wc \<mapsto> (options_heap wc (rc ! (n mod length rc)))\<lparr>shardId := Some sid\<rparr>)"
      and ow: "shardOwningPools w1 = (shardOwningPools wc)(next_conn wc \<mapsto> ''read:'' @ sid)"
      by blast+
    have inv: "\<And>a. (options_heap w1 a)\<lparr>shardId := Some sid\<rparr> = (options_heap w a)\<lparr>shardId := Some sid\<rparr>"
      using h Cons.prems(3) by simp
    from Cons.IH[OF rest c inv] obtain k where
      k1: "sp_create sp' = ShardReadCreate rc (Suc n + k) sid"
      and k2: "next_conn w' = next_conn w1 + k"
      and k3: "\<forall>c<next_conn w1. conn_options w' c = conn_options w1 c
                  \<and> shardOwningPools w' c = shardOwningPools w1 c"
      and k4: "\<forall>j<k. conn_options w' (next_conn w1 + j)
                        = Some ((options_heap w (rc ! ((Suc n + j) mod length rc)))\<lparr>shardId := Some sid\<rparr>)
                    \<and> shardOwningPools w' (next_conn w1 + j) = Some (''read:'' @ sid)"
      by blast
    have a1: "sp_create sp' = ShardReadCreate rc (n + Suc k) sid" using k1 by simp
    have a2: "next_conn w' = next_conn wc + Suc k" using k2 nx by simp
    have a3: "\<forall>c<next_conn wc. conn_options w' c = conn_options wc c
                  \<and> shardOwningPools w' c = shardOwningPools wc c"
      using k3 nx co ow by simp
    have a4: "conn_options w' (next_conn wc + j)
                        = Some ((options_heap w (rc ! ((n + j) mod length rc)))\<lparr>shardId := Some sid\<rparr>)
                    \<and> shardOwningPools w' (next_conn wc + j) = Some (''read:'' @ sid)" if "j < Suc k" for j
    proof (cases j)
      case 0
      with k3 nx co ow Cons.prems(3) show ?thesis by simp
    next
      case (Suc i)
      with that have "i < k" by simp
      with k4 nx Suc show ?thesis by simp
    qed
    from a1 a2 a3 a4 show ?thesis by blast
  qed
qed

text \<open>
  Claim C5, as amended. A read SubPool built by the constructor for a non-empty
  \<^verbatim>\<open>readConfig\<close> of length \<open>r\<close> starts with its counter at 0. Whatever operations run on it
  (acquire, release, destroy, in any order), the \<^verbatim>\<open>connect\<close> calls it has made are, in
  order, those of \<^verbatim>\<open>readConfig[N mod r]\<close> for \<open>N = 0, 1, ..., k - 1\<close>, where \<open>k\<close> is the value of
  its counter: the counter is never reset and every call of \<^verbatim>\<open>create\<close> counts, whether or not
  \<^verbatim>\<open>connect\<close> resolves. Hence the first \<open>r * n\<close> calls go through the configurations \<open>n\<close> times
  in their order. With an adapter whose \<^verbatim>\<open>connect\<close> never rejects, every call makes a
  connection: the SubPool has made \<open>k\<close> connections, and the \<open>N\<close>th of them is open to
  \<^verbatim>\<open>readConfig[N mod r]\<close> and recorded as a read connection. For the sharded pool the
  configuration is the selected object with the shard's id written into it.
\<close>

theorem round_robin_read_creation:
  assumes "rc \<noteq> []"
      and "readConfig config = Some rc"
      and "run_ops ad xs (new_Pool (cfg_pool config) (ReadCreate rc 0)) w = (sp', w')"
      and "addrs \<noteq> []"
      and "sc_readConfig shard = Some addrs"
      and "run_ops ad ys (new_Pool po (ShardReadCreate addrs 0 (sc_shardId shard))) v = (tp', v')"
  shows "rp_read (ReplicationPool config) = Some (new_Pool (cfg_pool config) (ReadCreate rc 0))
       \<and> (\<exists>k. sp_create sp' = ReadCreate rc k
              \<and> connect_log w' = connect_log w @ map (\<lambda>N. rc ! (N mod length rc)) [0..<k]
              \<and> (\<forall>n. length rc * n \<le> k \<longrightarrow>
                    take (length rc * n) (drop (length (connect_log w)) (connect_log w'))
                      = concat (replicate n rc))
              \<and> ((\<forall>m opts. connect ad m opts = None) \<longrightarrow>
                    next_conn w' = next_conn w + k
                    \<and> (\<forall>N<k. conn_options w' (next_conn w + N) = Some (rc ! (N mod length rc))
                             \<and> owningPools w' (next_conn w + N) = Some ''read'')))
       \<and> map_of (srp_read (add_shard po shard this)) (sc_shardId shard)
           = Some (Some (new_Pool po (ShardReadCreate addrs 0 (sc_shardId shard))))
       \<and> (\<exists>k. sp_create tp' = ShardReadCreate addrs k (sc_shardId shard)
              \<and> connect_log v' = connect_log v @
                    map (\<lambda>N. (options_heap v (addrs ! (N mod length addrs)))\<lparr>shardId := Some (sc_shardId shard)\<rparr>) [0..<k]
              \<and> (\<forall>n. length addrs * n \<le> k \<longrightarrow>
                    take (length addrs * n) (drop (length (connect_log v)) (connect_log v'))
                      = concat (replicate n (map (\<lambda>a. (options_heap v a)\<lparr>shardId := Some (sc_shardId shard)\<rparr>) addrs)))
              \<and> ((\<forall>m opts. connect ad m opts = None) \<longrightarrow>
                    next_conn v' = next_conn v + k
                    \<and> (\<forall>N<k. conn_options v' (next_conn v + N)
                                = Some ((options_heap v (addrs ! (N mod length addrs)))\<lparr>shardId := Some (sc_shardId shard)\<rparr>)
                             \<and> shardOwningPools v' (next_conn v + N) = Some (''read:'' @ sc_shardId shard))))"
proof -
  have p1: "rp_read (ReplicationPool config) = Some (new_Pool (cfg_pool config) (ReadCreate rc 0))"
    using assms(1,2) by (simp add: ReplicationPool_def)
  have c0: "sp_create (new_Pool (cfg_pool config) (ReadCreate rc 0)) = ReadCreate rc 0"
    by (simp add: new_Pool_def)
  from run_ops_ReadCreate[OF assms(3) c0] obtain k where
    k: "sp_create sp' = ReadCreate rc k"
       "connect_log w' = connect_log w @ map (\<lambda>N. rc ! (N mod length rc)) [0..<k]"
    by auto
  have k3: "take (length rc * n) (drop (length (connect_log w)) (connect_log w')) = concat (replicate n rc)"
    if "length rc * n \<le> k" for n
    using take_round_robin_id[OF assms(1) that, of "connect_log w"] by (simp only: k(2))
  have k4: "next_conn w' = next_conn w + k
            \<and> (\<forall>N<k. conn_options w' (next_conn w + N) = Some (rc ! (N mod length rc))
                     \<and> owningPools w' (next_conn w + N) = Some ''read'')"
    if ok: "\<forall>m opts. connect ad m opts = None"
  proof -
    from run_ops_ReadCreate_conns[OF assms(3) c0 ok] obtain i where
      i: "sp_create sp' = ReadCreate rc (0 + i)" "next_conn w' = next_conn w + i"
         "\<forall>j<i. conn_options w' (next_conn w + j) = Some (rc ! ((0 + j) mod length rc))
                    \<and> owningPools w' (next_conn w + j) = Some ''read''"
      by blast
    from i(1) k(1) have "i = k" by simp
    with i(2,3) show ?thesis by simp
  qed
  from k k3 k4 have p2: "\<exists>k. sp_create sp' = ReadCreate rc k
              \<and> connect_log w' = connect_log w @ map (\<lambda>N. rc ! (N mod length rc)) [0..<k]
              \<and> (\<forall>n. length rc * n \<le> k \<longrightarrow>
                    take (length rc * n) (drop (length (connect_log w)) (connect_log w'))
                      = concat (replicate n rc))
              \<and> ((\<forall>m opts. connect ad m opts = None) \<longrightarrow>
                    next_conn w' = next_conn w + k
                    \<and> (\<forall>N<k. conn_options w' (next_conn w + N) = Some (rc ! (N mod length rc))
                             \<and> owningPools w' (next_conn w + N) = Some ''read''))"
    by blast
  note p3 = add_shard_read_pool[OF assms(5,4), of po this]
  have c1: "sp_create (new_Pool po (ShardReadCreate addrs 0 (sc_shardId shard))) = ShardReadCreate addrs 0 (sc_shardId shard)"
    by (simp add: new_Pool_def)
  from run_ops_ShardReadCreate[OF assms(6) c1, of v] obtain j where
    j: "sp_create tp' = ShardReadCreate addrs j (sc_shardId shard)"
       "connect_log v' = connect_log v @
          map (\<lambda>N. (options_heap v (addrs ! (N mod length addrs)))\<lparr>shardId := Some (sc_shardId shard)\<rparr>) [0..<j]"
    by auto
  have j3: "take (length addrs * n) (drop (length (connect_log v)) (connect_log v'))
            = concat (replicate n (map (\<lambda>a. (options_heap v a)\<lparr>shardId := Some (sc_shardId shard)\<rparr>) addrs))"
    if "length addrs * n \<le> j" for n
    using take_round_robin[OF assms(4) that, of "connect_log v" "\<lambda>a. (options_heap v a)\<lparr>shardId := Some (sc_shardId shard)\<rparr>"]
    by (simp only: j(2))
  have j4: "next_conn v' = next_conn v + j
            \<and> (\<forall>N<j. conn_options v' (next_conn v + N)
                        = Some ((options_heap v (addrs ! (N mod length addrs)))\<lparr>shardId := Some (sc_shardId shard)\<rparr>)
                     \<and> shardOwningPools v' (next_conn v + N) = Some (''read:'' @ sc_shardId shard))"
    if ok: "\<forall>m opts. connect ad m opts = None"
  proof -
    from run_ops_ShardReadCreate_conns[OF assms(6) c1 refl ok] obtain i where
      i: "sp_create tp' = ShardReadCreate addrs (0 + i) (sc_shardId shard)" "next_conn v' = next_conn v + i"
         "\<forall>N<i. conn_options v' (next_conn v + N)
                        = Some ((options_heap v (addrs ! ((0 + N) mod length addrs)))\<lparr>shardId := Some (sc_shardId shard)\<rparr>)
                    \<and> shardOwningPools v' (next_conn v + N) = Some (''read:'' @ sc_shardId shard)"
      by blast
    from i(1) j(1) have "i = j" by simp
    with i(2,3) show ?thesis by simp
  qed
  from j j3 j4 have p4: "\<exists>k. sp_create tp' = ShardReadCreate addrs k (sc_shardId shard)
              \<and> connect_log v' = connect_log v @
                    map (\<lambda>N. (options_heap v (addrs ! (N mod length addrs)))\<lparr>shardId := Some (sc_shardId shard)\<rparr>) [0..<k]
              \<and> (\<forall>n. length addrs * n \<le> k \<longrightarrow>
                    take (length addrs * n) (drop (length (connect_log v)) (connect_log v'))
                      = concat (replicate n (map (\<lambda>a. (options_heap v a)\<lparr>shardId := Some (sc_shardId shard)\<rparr>) addrs)))
              \<and> ((\<forall>m opts. connect ad m opts = None) \<longrightarrow>
                    next_conn v' = next_conn v + k
                    \<and> (\<forall>N<k. conn_options v' (next_conn v + N)
                                = Some ((options_heap v (addrs ! (N mod length addrs)))\<lparr>shardId := Some (sc_shardId shard)\<rparr>)
                             \<and> shardOwningPools v' (next_conn v + N) = Some (''read:'' @ sc_shardId shard)))"
    by blast
  from p1 p2 p3 p4 show ?thesis by (intro conjI)
qed

text \<open>
  The property at a history with churn on the read SubPool of the deployment with two
  replicas, and at two acquisitions on the read SubPool of shard \<open>s2\<close>.
\<close>

theorem round_robin_read_creation_witness:
  "replicas \<noteq> [] \<and> readConfig config_replicated = Some replicas
   \<and> [2, 3] \<noteq> ([] :: nat list) \<and> sc_readConfig shard_s2 = Some [2, 3]
   \<and> (\<forall>m opts. connect adapter_ok m opts = None)
   \<and> rp_read (ReplicationPool config_replicated) = Some (new_Pool (cfg_pool config_replicated) (ReadCreate replicas 0))
   \<and> sp_create (fst (run_ops adapter_ok churn (new_Pool (cfg_pool config_replicated) (ReadCreate replicas 0)) world_0))
       = ReadCreate replicas 4
   \<and> connect_log (snd (run_ops adapter_ok churn (new_Pool (cfg_pool config_replicated) (ReadCreate replicas 0)) world_0))
       = concat (replicate 2 replicas)
   \<and> next_conn (snd (run_ops adapter_ok churn (new_Pool (cfg_pool config_replicated) (ReadCreate replicas 0)) world_0))
       = 4
   \<and> conn_options (snd (run_ops adapter_ok churn (new_Pool (cfg_pool config_replicated) (ReadCreate replicas 0)) world_0)) 0
       = Some (backend ''replica-a'')
   \<and> conn_options (snd (run_ops adapter_ok churn (new_Pool (cfg_pool config_replicated) (ReadCreate replicas 0)) world_0)) 1
       = Some (backend ''replica-b'')
   \<and> conn_options (snd (run_ops adapter_ok churn (new_Pool (cfg_pool config_replicated) (ReadCreate replicas 0)) world_0)) 2
       = Some (backend ''replica-a'')
   \<and> conn_options (snd (run_ops adapter_ok churn (new_Pool (cfg_pool config_replicated) (ReadCreate replicas 0)) world_0)) 3
       = Some (backend ''replica-b'')
   \<and> owningPools (snd (run_ops adapter_ok churn (new_Pool (cfg_pool config_replicated) (ReadCreate replicas 0)) world_0)) 3
       = Some ''read''
   \<and> sp_create (fst (run_ops adapter_ok [Acquire, Acquire] (new_Pool (pool_options_max 5) (ShardReadCreate [2, 3] 0 (sc_shardId shard_s2))) world_0))
       = ShardReadCreate [2, 3] 2 ''s2''
   \<and> connect_log (snd (run_ops adapter_ok [Acquire, Acquire] (new_Pool (pool_options_max 5) (ShardReadCreate [2, 3] 0 (sc_shardId shard_s2))) world_0))
       = [\<lparr>params = [], shardId = Some ''s2''\<rparr>, \<lparr>params = [], shardId = Some ''s2''\<rparr>]
   \<and> next_conn (snd (run_ops adapter_ok [Acquire, Acquire] (new_Pool (pool_options_max 5) (ShardReadCreate [2, 3] 0 (sc_shardId shard_s2))) world_0))
       = 2
   \<and> conn_options (snd (run_ops adapter_ok [Acquire, Acquire] (new_Pool (pool_options_max 5) (ShardReadCreate [2, 3] 0 (sc_shardId shard_s2))) world_0)) 1
       = Some \<lparr>params = [], shardId = Some ''s2''\<rparr>
   \<and> shardOwningPools (snd (run_ops adapter_ok [Acquire, Acquire] (new_Pool (pool_options_max 5) (ShardReadCreate [2, 3] 0 (sc_shardId shard_s2))) world_0)) 1
       = Some ''read:s2''"
proof -
  let ?R = "run_ops adapter_ok churn (new_Pool (cfg_pool config_replicated) (ReadCreate replicas 0)) world_0"
  let ?S = "run_ops adapter_ok [Acquire, Acquire] (new_Pool (pool_options_max 5) (ShardReadCreate [2, 3] 0 (sc_shardId shard_s2))) world_0"
  have h1: "replicas \<noteq> []" by (simp add: replicas_def)
  have h2: "readConfig config_replicated = Some replicas" by (simp add: config_replicated_def)
  have h3: "?R = (fst ?R, snd ?R)" by simp
  have h4: "[2, 3] \<noteq> ([] :: nat list)" by simp
  have h5: "sc_readConfig shard_s2 = Some [2, 3]" by (simp add: shard_s2_def)
  have h6: "?S = (fst ?S, snd ?S)" by simp
  have ok: "\<forall>m opts. connect adapter_ok m opts = None" by (simp add: adapter_ok_def)
  have c1: "sp_create (fst ?R) = ReadCreate replicas 4"
    by (simp add: churn_def fixture_defs pool_op_defs)
  have l0: "connect_log world_0 = []" by (simp add: world_0_def)
  have n0: "next_conn world_0 = 0" by (simp add: world_0_def)
  have c2: "sp_create (fst ?S) = ShardReadCreate [2, 3] 2 ''s2''"
    by (simp add: fixture_defs shard_s2_def pool_op_defs)
  have hp: "options_heap world_0 = (\<lambda>a. \<lparr>params = [], shardId = None\<rparr>)" by (simp add: world_0_def)
  from round_robin_read_creation [OF h1 h2 h3 h4 h5 h6]
  obtain k j where
        p1: "rp_read (ReplicationPool config_replicated) = Some (new_Pool (cfg_pool config_replicated) (ReadCreate replicas 0))"
    and k: "sp_create (fst ?R) = ReadCreate replicas k"
           "connect_log (snd ?R) = connect_log world_0 @ map (\<lambda>N. replicas ! (N mod length replicas)) [0..<k]"
           "\<forall>n. length replicas * n \<le> k \<longrightarrow>
              take (length replicas * n) (drop (length (connect_log world_0)) (connect_log (snd ?R)))
                = concat (replicate n replicas)"
           "(\<forall>m opts. connect adapter_ok m opts = None) \<longrightarrow>
              next_conn (snd ?R) = next_conn world_0 + k
              \<and> (\<forall>N<k. conn_options (snd ?R) (next_conn world_0 + N) = Some (replicas ! (N mod length replicas))
                       \<and> owningPools (snd ?R) (next_conn world_0 + N) = Some ''read'')"
    and j: "sp_create (fst ?S) = ShardReadCreate [2, 3] j (sc_shardId shard_s2)"
           "connect_log (snd ?S) = connect_log world_0 @
              map (\<lambda>N. (options_heap world_0 ([2, 3] ! (N mod length [2, 3 :: nat])))\<lparr>shardId := Some (sc_shardId shard_s2)\<rparr>) [0..<j]"
           "(\<forall>m opts. connect adapter_ok m opts = None) \<longrightarrow>
              next_conn (snd ?S) = next_conn world_0 + j
              \<and> (\<forall>N<j. conn_options (snd ?S) (next_conn world_0 + N)
                          = Some ((options_heap world_0 ([2, 3] ! (N mod length [2, 3 :: nat])))\<lparr>shardId := Some (sc_shardId shard_s2)\<rparr>)
                       \<and> shardOwningPools (snd ?S) (next_conn world_0 + N) = Some (''read:'' @ sc_shardId shard_s2))"
    by blast
  from k(1) c1 have k4: "k = 4" by simp
  have len: "length replicas = 2" by (simp add: replicas_def)
  from k(3) k4 len have "take 4 (drop (length (connect_log world_0)) (connect_log (snd ?R))) = concat (replicate 2 replicas)"
    by (metis mult_2 numeral_Bit0 order_refl)
  moreover from k(2) k4 l0 have "length (connect_log (snd ?R)) = 4" by simp
  ultimately have r1: "connect_log (snd ?R) = concat (replicate 2 replicas)" using l0 by simp
  from k(4) ok k4 n0 have m1: "next_conn (snd ?R) = 4"
    and m2: "\<forall>N<4. conn_options (snd ?R) N = Some (replicas ! (N mod length replicas))
                       \<and> owningPools (snd ?R) N = Some ''read''"
    by simp_all
  have md: "(0::nat) mod 2 = 0" "(1::nat) mod 2 = 1" "(2::nat) mod 2 = 0" "(3::nat) mod 2 = 1"
    by simp_all
  have nth: "replicas ! 0 = backend ''replica-a''" "replicas ! 1 = backend ''replica-b''"
    by (simp_all add: replicas_def)
  from m2 have "conn_options (snd ?R) 0 = Some (replicas ! (0 mod length replicas))" by simp
  then have q0: "conn_options (snd ?R) 0 = Some (backend ''replica-a'')"
    by (simp only: len md nth)
  from m2 have "conn_options (snd ?R) 1 = Some (replicas ! (1 mod length replicas))" by simp
  then have q1: "conn_options (snd ?R) 1 = Some (backend ''replica-b'')"
    by (simp only: len md nth)
  from m2 have "conn_options (snd ?R) 2 = Some (replicas ! (2 mod length replicas))" by simp
  then have q2: "conn_options (snd ?R) 2 = Some (backend ''replica-a'')"
    by (simp only: len md nth)
  from m2 have "conn_options (snd ?R) 3 = Some (replicas ! (3 mod length replicas))" by simp
  then have q3: "conn_options (snd ?R) 3 = Some (backend ''replica-b'')"
    by (simp only: len md nth)
  from m2 have q4: "owningPools (snd ?R) 3 = Some ''read''" by simp
  from j(1) c2 have j2: "j = 2" by simp
  have "[0..<2] = [0, Suc 0]" by (simp add: upt_rec)
  with j(2) j2 l0 hp have r2: "connect_log (snd ?S) = [\<lparr>params = [], shardId = Some ''s2''\<rparr>, \<lparr>params = [], shardId = Some ''s2''\<rparr>]"
    by (simp add: shard_s2_def)
  from j(3) ok j2 n0 have s1: "next_conn (snd ?S) = 2"
    and s2: "\<forall>N<2. conn_options (snd ?S) N
                = Some ((options_heap world_0 ([2, 3] ! (N mod length [2, 3 :: nat])))\<lparr>shardId := Some (sc_shardId shard_s2)\<rparr>)
              \<and> shardOwningPools (snd ?S) N = Some (''read:'' @ sc_shardId shard_s2)"
    by simp_all
  from s2 hp have s3: "conn_options (snd ?S) 1 = Some \<lparr>params = [], shardId = Some ''s2''\<rparr>"
    and s4: "shardOwningPools (snd ?S) 1 = Some ''read:s2''"
    by (simp_all add: shard_s2_def)
  from h1 h2 h4 h5 ok p1 c1 r1 m1 q0 q1 q2 q3 q4 c2 r2 s1 s3 s4 show ?thesis by (intro conjI)
qed

text \<open>
  Claim C5, as stated, fails. The first \<^verbatim>\<open>connect\<close> call of the read SubPool, to the first
  replica, is rejected, and the read request fails. The next read request makes the first
  connection of the SubPool, connection 0, which is open to the second replica,
  \<^verbatim>\<open>readConfig[1]\<close>, and not to \<^verbatim>\<open>readConfig[0 mod 2]\<close>.
\<close>

theorem refused_connect_counterexample:
  "fst after_refused_read = Inl (Error ''ECONNREFUSED'')
   \<and> next_conn (snd (snd after_refused_read)) = 0
   \<and> fst (acquire adapter_first_connect_fails (fst (snd after_refused_read)) (Some read_request)
        (snd (snd after_refused_read))) = Inr 0
   \<and> conn_options (snd (snd (acquire adapter_first_connect_fails (fst (snd after_refused_read))
        (Some read_request) (snd (snd after_refused_read))))) 0 = Some (backend ''replica-b'')
   \<and> owningPools (snd (snd (acquire adapter_first_connect_fails (fst (snd after_refused_read))
        (Some read_request) (snd (snd after_refused_read))))) 0 = Some ''read''
   \<and> replicas ! (0 mod length replicas) = backend ''replica-a''
   \<and> backend ''replica-a'' \<noteq> backend ''replica-b''"
  by (simp add: after_refused_read_def adapter_first_connect_fails_def read_request_def
        world_0_def pool_options_max_def backend_def replicas_def config_replicated_def
        ReplicationPool_def new_Pool_def acquire_defs)

subsection \<open>Creation writes the shard id into the caller's options\<close>

text \<open>The constructor builds, and the operations keep, SubPools that belong to the shard entries.\<close>

lemma update_set:
  "(k', v') \<in> set (AList.update k v al) \<Longrightarrow> (k', v') = (k, v) \<or> (k', v') \<in> set al"
  by (induction al) (auto split: if_splits)

lemma built_from_store:
  assumes "built_from shs this" and "pool_of_shards shs sid sp"
  shows "built_from shs (sharded_store_pool this (pr, sid) sp)"
proof (cases pr)
  case ReadPool
  have "list_all (\<lambda>(sid, pool). case pool of None \<Rightarrow> True | Some sp \<Rightarrow> pool_of_shards shs sid sp)
          (AList.update sid (Some sp) (srp_read this))"
    unfolding list_all_iff
  proof
    fix x assume "x \<in> set (AList.update sid (Some sp) (srp_read this))"
    then have "x = (sid, Some sp) \<or> x \<in> set (srp_read this)"
      using update_set[of "fst x" "snd x" sid "Some sp" "srp_read this"] by simp
    then show "case x of (sid, pool) \<Rightarrow> (case pool of None \<Rightarrow> True | Some sp \<Rightarrow> pool_of_shards shs sid sp)"
      using assms by (auto simp: built_from_def list_all_iff)
  qed
  with assms(1) ReadPool show ?thesis by (simp add: built_from_def)
next
  case WritePool
  have "list_all (\<lambda>(sid, sp). pool_of_shards shs sid sp) (AList.update sid sp (srp_write this))"
    unfolding list_all_iff
  proof
    fix x assume "x \<in> set (AList.update sid sp (srp_write this))"
    then have "x = (sid, sp) \<or> x \<in> set (srp_write this)"
      using update_set[of "fst x" "snd x" sid sp "srp_write this"] by simp
    then show "case x of (sid, sp) \<Rightarrow> pool_of_shards shs sid sp"
      using assms by (auto simp: built_from_def list_all_iff)
  qed
  with assms(1) WritePool show ?thesis by (simp add: built_from_def)
qed

lemma built_from_null:
  assumes "built_from shs this"
  shows "built_from shs (this\<lparr>srp_read := AList.update sid None (srp_read this)\<rparr>)"
proof -
  have "list_all (\<lambda>(sid, pool). case pool of None \<Rightarrow> True | Some sp \<Rightarrow> pool_of_shards shs sid sp)
          (AList.update sid None (srp_read this))"
    unfolding list_all_iff
  proof
    fix x assume "x \<in> set (AList.update sid None (srp_read this))"
    then have "x = (sid, None) \<or> x \<in> set (srp_read this)"
      using update_set[of "fst x" "snd x" sid None "srp_read this"] by simp
    then show "case x of (sid, pool) \<Rightarrow> (case pool of None \<Rightarrow> True | Some sp \<Rightarrow> pool_of_shards shs sid sp)"
      using assms by (auto simp: built_from_def list_all_iff)
  qed
  with assms show ?thesis by (simp add: built_from_def)
qed

lemma built_from_add_shard:
  assumes "built_from shs this" and "shard \<in> set shs"
  shows "built_from shs (add_shard po shard this)"
proof -
  have w: "pool_of_shards shs (sc_shardId shard) (new_Pool po (ShardWriteCreate (sc_writeConfig shard) (sc_shardId shard)))"
    using assms(2) by (auto simp: pool_of_shards_def list_ex_iff new_Pool_def)
  have r: "pool_of_shards shs (sc_shardId shard) (new_Pool po (ShardReadCreate rc 0 (sc_shardId shard)))"
    if "sc_readConfig shard = Some rc" "rc \<noteq> []" for rc
    using assms(2) that by (auto simp: pool_of_shards_def list_ex_iff new_Pool_def)
  have "built_from shs
     (case sc_readConfig shard of
        None \<Rightarrow> this\<lparr>srp_read := AList.update (sc_shardId shard) None (srp_read this)\<rparr>
      | Some rc \<Rightarrow>
          if length rc = 0 then this\<lparr>srp_read := AList.update (sc_shardId shard) None (srp_read this)\<rparr>
          else this\<lparr>srp_read := AList.update (sc_shardId shard) (Some (new_Pool po (ShardReadCreate rc 0 (sc_shardId shard)))) (srp_read this)\<rparr>)"
    using built_from_null[OF assms(1)] built_from_store[OF assms(1) r, of _ ReadPool]
    by (auto split: option.splits)
  from built_from_store[OF this w, of WritePool] show ?thesis
    by (simp add: add_shard_def Let_def)
qed

lemma built_from_fold:
  assumes "built_from shs this" and "set xs \<subseteq> set shs"
  shows "built_from shs (fold (add_shard po) xs this)"
  using assms by (induction xs arbitrary: this) (auto intro: built_from_add_shard)

lemma constructor_built_from: "built_from (shards config) (ShardedReplicationPool config)"
  unfolding ShardedReplicationPool_def
  by (rule built_from_fold) (simp_all add: built_from_def)

lemma run_create_of_shard:
  assumes "closure_of_shard shard cl" and "run_create ad cl w1 = (r1, cl', w')"
  shows "closure_of_shard shard cl'
       \<and> list_ex (\<lambda>a. options_heap w' = (options_heap w1)(a := (options_heap w1 a)\<lparr>shardId := Some (sc_shardId shard)\<rparr>)
                     \<and> connect_log w' = connect_log w1 @ [options_heap w' a])
           (config_objects shard)"
proof (cases cl)
  case (ShardReadCreate rc n sid)
  with assms(1) have s: "sid = sc_shardId shard" "sc_readConfig shard = Some rc" "rc \<noteq> []" by auto
  from run_create_ShardReadCreate[OF assms(2)[unfolded ShardReadCreate]]
  have c: "cl' = ShardReadCreate rc (Suc n) sid"
    and h: "options_heap w' = (options_heap w1)(rc ! (n mod length rc) := (options_heap w1 (rc ! (n mod length rc)))\<lparr>shardId := Some sid\<rparr>)"
    and l: "connect_log w' = connect_log w1 @ [(options_heap w1 (rc ! (n mod length rc)))\<lparr>shardId := Some sid\<rparr>]"
    by auto
  have m: "rc ! (n mod length rc) \<in> set (config_objects shard)"
    using s by (simp add: config_objects_def)
  from h l have "options_heap w' = (options_heap w1)(rc ! (n mod length rc) := (options_heap w1 (rc ! (n mod length rc)))\<lparr>shardId := Some (sc_shardId shard)\<rparr>)
      \<and> connect_log w' = connect_log w1 @ [options_heap w' (rc ! (n mod length rc))]"
    using s(1) by simp
  with m c s show ?thesis unfolding list_ex_iff by auto
next
  case (ShardWriteCreate a sid)
  with assms(1) have s: "sid = sc_shardId shard" "a = sc_writeConfig shard" by auto
  from run_create_ShardWriteCreate[OF assms(2)[unfolded ShardWriteCreate]]
  have c: "cl' = ShardWriteCreate a sid"
    and h: "options_heap w' = (options_heap w1)(a := (options_heap w1 a)\<lparr>shardId := Some sid\<rparr>)"
    and l: "connect_log w' = connect_log w1 @ [(options_heap w1 a)\<lparr>shardId := Some sid\<rparr>]"
    by auto
  have m: "a \<in> set (config_objects shard)" using s by (simp add: config_objects_def)
  from h l have "options_heap w' = (options_heap w1)(a := (options_heap w1 a)\<lparr>shardId := Some (sc_shardId shard)\<rparr>)
      \<and> connect_log w' = connect_log w1 @ [options_heap w' a]"
    using s(1) by simp
  with m c s show ?thesis unfolding list_ex_iff by auto
next
  case (ReadCreate rc n)
  with assms(1) show ?thesis by simp
next
  case (WriteCreate opts)
  with assms(1) show ?thesis by simp
qed

text \<open>One \<^verbatim>\<open>acquire()\<close> of a SubPool of the sharded pool that calls \<^verbatim>\<open>connect\<close>.\<close>

lemma pool_acquire_of_shards:
  assumes "pool_of_shards shs sid sp" and "pool_acquire ad sp w = (r, sp', w')"
  shows "pool_of_shards shs sid sp'"
    and "connect_log w' \<noteq> connect_log w \<Longrightarrow> wrote_shardId shs sid w w'"
proof -
  from assms(1) obtain shard where sh: "shard \<in> set shs" "sc_shardId shard = sid"
      "closure_of_shard shard (sp_create sp)"
    by (auto simp: pool_of_shards_def list_ex_iff)
  from pool_acquire_create[OF assms(2)]
  consider (same) "sp_create sp' = sp_create sp" "connect_log w' = connect_log w"
    | (created) w1 r1 where "connect_log w1 = connect_log w" "options_heap w1 = options_heap w"
        "run_create ad (sp_create sp) w1 = (r1, sp_create sp', w')"
    by blast
  then have "pool_of_shards shs sid sp' \<and> (connect_log w' \<noteq> connect_log w \<longrightarrow> wrote_shardId shs sid w w')"
  proof cases
    case same
    with sh show ?thesis by (auto simp: pool_of_shards_def list_ex_iff)
  next
    case created
    from run_create_of_shard[OF sh(3) created(3)] created(1,2) sh(1,2)
    show ?thesis by (auto simp: pool_of_shards_def wrote_shardId_def list_ex_iff)
  qed
  then show "pool_of_shards shs sid sp'"
    and "connect_log w' \<noteq> connect_log w \<Longrightarrow> wrote_shardId shs sid w w'" by blast+
qed

lemma getPool_of_shards:
  assumes "built_from shs this"
  shows "sharded_getPool this sid ty um = Some (ref, sp) \<Longrightarrow> snd ref = sid \<and> pool_of_shards shs sid sp"
    and "sharded_getPool_0 this sid ty = Some (ref, sp) \<Longrightarrow> snd ref = sid \<and> pool_of_shards shs sid sp"
  using assms
  by (auto simp: sharded_getPool_def sharded_getPool_0_def built_from_def list_all_iff
      split: if_splits option.splits dest!: map_of_SomeD)

lemma wrote_shardId_annotated:
  "wrote_shardId shs sid w (w'\<lparr>conn_shardId := m\<rparr>) = wrote_shardId shs sid w w'"
  by (simp add: wrote_shardId_def)

lemma served_of_shards:
  assumes "built_from shs this" and "snd ref = sid" and "pool_of_shards shs sid sp"
      and "pool_acquire ad sp w = (r0, sp', w0)"
  shows "built_from shs (sharded_store_pool this ref sp')"
    and "connect_log w0 \<noteq> connect_log w \<Longrightarrow> wrote_shardId shs sid w w0"
proof -
  from pool_acquire_of_shards(1)[OF assms(3,4)] built_from_store[OF assms(1), of sid sp' "fst ref"] assms(2)
  show "built_from shs (sharded_store_pool this ref sp')"
    by (cases ref) auto
  show "connect_log w0 \<noteq> connect_log w \<Longrightarrow> wrote_shardId shs sid w w0"
    by (rule pool_acquire_of_shards(2)[OF assms(3,4)])
qed

lemma sharded_acquire_of_shards:
  assumes "built_from shs this" and "sharded_acquire ad this options w = (r, this', w')"
  shows "built_from shs this'"
    and "connect_log w' \<noteq> connect_log w \<Longrightarrow> wrote_shardId shs (opt_shardId options) w w'"
proof -
  have "built_from shs this' \<and> (connect_log w' \<noteq> connect_log w \<longrightarrow> wrote_shardId shs (opt_shardId options) w w')"
  proof (cases "sharded_getPool this (opt_shardId options) (type_or_default options) (useMaster_or_default options)")
    case None
    with assms show ?thesis
      by (auto simp: sharded_acquire_def type_or_default_def split: option.splits if_splits)
  next
    case (Some found)
    obtain ref sp where f: "found = (ref, sp)" by (cases found)
    obtain r0 sp' w0 where pa: "pool_acquire ad sp w = (r0, sp', w0)"
      by (cases "pool_acquire ad sp w") auto
    from getPool_of_shards(1)[OF assms(1) Some[unfolded f]]
    have g: "snd ref = opt_shardId options" "pool_of_shards shs (opt_shardId options) sp" by auto
    note sv = served_of_shards[OF assms(1) g pa]
    from assms(2) Some f pa
    consider (invalid) "this' = this" "w' = w"
      | (failed) "this' = sharded_store_pool this ref sp'" "w' = w0"
      | (served) c where "this' = sharded_store_pool this ref sp'"
          "w' = w0\<lparr>conn_shardId := (conn_shardId w0)(c \<mapsto> opt_shardId options)\<rparr>"
      by (auto simp: sharded_acquire_def type_or_default_def split: option.splits if_splits sum.splits)
    then show ?thesis
    proof cases
      case invalid
      with assms(1) show ?thesis by simp
    next
      case failed
      with sv show ?thesis by simp
    next
      case served
      with sv show ?thesis by (simp add: wrote_shardId_annotated)
    qed
  qed
  then show "built_from shs this'"
    and "connect_log w' \<noteq> connect_log w \<Longrightarrow> wrote_shardId shs (opt_shardId options) w w'"
    by blast+
qed

lemma sharded_acquire_0_of_shards:
  assumes "built_from shs this" and "sharded_acquire_0 ad this options w = (r, this', w')"
  shows "built_from shs this'"
    and "connect_log w' \<noteq> connect_log w \<Longrightarrow> wrote_shardId shs (opt_shardId options) w w'"
proof -
  have "built_from shs this' \<and> (connect_log w' \<noteq> connect_log w \<longrightarrow> wrote_shardId shs (opt_shardId options) w w')"
  proof (cases "sharded_getPool_0 this (opt_shardId options) (type_or_default options)")
    case None
    with assms show ?thesis
      by (auto simp: sharded_acquire_0_def Let_def split: if_splits)
  next
    case (Some found)
    obtain ref sp where f: "found = (ref, sp)" by (cases found)
    obtain r0 sp' w0 where pa: "pool_acquire ad sp w = (r0, sp', w0)"
      by (cases "pool_acquire ad sp w") auto
    from getPool_of_shards(2)[OF assms(1) Some[unfolded f]]
    have g: "snd ref = opt_shardId options" "pool_of_shards shs (opt_shardId options) sp" by auto
    note sv = served_of_shards[OF assms(1) g pa]
    from assms(2) Some f pa
    consider (invalid) "this' = this" "w' = w"
      | (failed) "this' = sharded_store_pool this ref sp'" "w' = w0"
      | (served) c where "this' = sharded_store_pool this ref sp'"
          "w' = w0\<lparr>conn_shardId := (conn_shardId w0)(c \<mapsto> opt_shardId options)\<rparr>"
      by (auto simp: sharded_acquire_0_def Let_def split: if_splits sum.splits)
    then show ?thesis
    proof cases
      case invalid
      with assms(1) show ?thesis by simp
    next
      case failed
      with sv show ?thesis by simp
    next
      case served
      with sv show ?thesis by (simp add: wrote_shardId_annotated)
    qed
  qed
  then show "built_from shs this'"
    and "connect_log w' \<noteq> connect_log w \<Longrightarrow> wrote_shardId shs (opt_shardId options) w w'"
    by blast+
qed

text \<open>
  Claim C10. The sharded constructor builds SubPools whose \<^verbatim>\<open>create\<close> closures belong to the
  shard entries, and \<^verbatim>\<open>acquire\<close> keeps it so. Whenever an \<^verbatim>\<open>acquire\<close> on such a pool makes a
  \<^verbatim>\<open>connect\<close> call, it has first written the requested shard's id into the \<^verbatim>\<open>shardId\<close> field
  of an options object of that shard (its \<^verbatim>\<open>writeConfig\<close> or an element of its
  \<^verbatim>\<open>readConfig\<close>), in place, and \<^verbatim>\<open>connect\<close> received that object. Both versions of \<^verbatim>\<open>acquire\<close>
  are covered.
\<close>

theorem creation_writes_shardId_into_config:
  assumes "built_from (shards config) this"
      and "sharded_acquire ad this options w = (r, this', w')"
      and "connect_log w' \<noteq> connect_log w"
      and "sharded_acquire_0 ad this options_0 w = (r_0, this_0', w_0')"
      and "connect_log w_0' \<noteq> connect_log w"
  shows "built_from (shards config) (ShardedReplicationPool config)
       \<and> wrote_shardId (shards config) (opt_shardId options) w w'
       \<and> built_from (shards config) this'
       \<and> wrote_shardId (shards config) (opt_shardId options_0) w w_0'
       \<and> built_from (shards config) this_0'"
  using constructor_built_from[of config]
    sharded_acquire_of_shards[OF assms(1,2)] assms(3)
    sharded_acquire_0_of_shards[OF assms(1,4)] assms(5)
  by (intro conjI)

theorem creation_writes_shardId_into_config_witness:
  "built_from (shards (config_sharded 1)) (ShardedReplicationPool (config_sharded 1))
   \<and> connect_log (snd (snd (after_write_on ''s1''))) \<noteq> connect_log world_0
   \<and> connect_log (snd (snd (sharded_acquire_0 adapter_ok (ShardedReplicationPool (config_sharded 1)) (read_on ''s2'') world_0)))
       \<noteq> connect_log world_0
   \<and> wrote_shardId (shards (config_sharded 1)) ''s1'' world_0 (snd (snd (after_write_on ''s1'')))
   \<and> shardId (options_heap world_0 0) = None
   \<and> shardId (options_heap (snd (snd (after_write_on ''s1''))) 0) = Some ''s1''
   \<and> wrote_shardId (shards (config_sharded 1)) ''s2'' world_0
        (snd (snd (sharded_acquire_0 adapter_ok (ShardedReplicationPool (config_sharded 1)) (read_on ''s2'') world_0)))
   \<and> shardId (options_heap
        (snd (snd (sharded_acquire_0 adapter_ok (ShardedReplicationPool (config_sharded 1)) (read_on ''s2'') world_0))) 2)
       = Some ''s2''"
proof -
  let ?P = "ShardedReplicationPool (config_sharded 1)"
  let ?X = "sharded_acquire adapter_ok ?P (write_on ''s1'') world_0"
  let ?Y = "sharded_acquire_0 adapter_ok ?P (read_on ''s2'') world_0"
  have x: "after_write_on ''s1'' = ?X" by (simp add: after_write_on_def)
  have h1: "built_from (shards (config_sharded 1)) ?P"
    by (simp add: sharded_fixture_defs built_from_def pool_of_shards_def Let_def)
  have h2: "?X = (fst ?X, fst (snd ?X), snd (snd ?X))" by simp
  have h3: "connect_log (snd (snd ?X)) \<noteq> connect_log world_0"
    by (simp add: sharded_fixture_defs sharded_acquire_defs)
  have h4: "?Y = (fst ?Y, fst (snd ?Y), snd (snd ?Y))" by simp
  have h5: "connect_log (snd (snd ?Y)) \<noteq> connect_log world_0"
    by (simp add: sharded_fixture_defs sharded_acquire_defs)
  have o1: "opt_shardId (write_on ''s1'') = ''s1''" by (simp add: write_on_def)
  have o2: "opt_shardId (read_on ''s2'') = ''s2''" by (simp add: read_on_def)
  have e0: "shardId (options_heap world_0 0) = None" by (simp add: world_0_def)
  have e1: "shardId (options_heap (snd (snd ?X)) 0) = Some ''s1''"
    by (simp add: sharded_fixture_defs sharded_acquire_defs)
  have e2: "shardId (options_heap (snd (snd ?Y)) 2) = Some ''s2''"
    by (simp add: sharded_fixture_defs sharded_acquire_defs)
  from creation_writes_shardId_into_config [OF h1 h2 h3 h4 h5]
  have "wrote_shardId (shards (config_sharded 1)) ''s1'' world_0 (snd (snd ?X))
      \<and> wrote_shardId (shards (config_sharded 1)) ''s2'' world_0 (snd (snd ?Y))"
    by (simp only: o1 o2)
  with h1 h3 h5 e0 e1 e2 show ?thesis unfolding x by blast
qed

subsection \<open>Drain and destroyAllNow\<close>












end
